theory Spec2Isabelle
  imports Main "HOL-Library.Word"
begin

unbundle bit_operations_syntax

section \<open>The vhost-user filesystem device: DAX cache window\<close>

text \<open>
  A shallow embedding of \<^verbatim>\<open>hw/virtio/vhost-user-fs.c\<close> and of its header. The C
  functions become HOL functions of the same names. What the C code does to the process
  (calls of \<^verbatim>\<open>mmap\<close>, \<^verbatim>\<open>errno\<close>, \<^verbatim>\<open>error_report\<close>) is explicit state: a \<open>world\<close>
  holding the address space, \<^verbatim>\<open>errno\<close> and the list of events issued so far. What the build
  and the host supply (the kernel's answer to an \<^verbatim>\<open>mmap\<close> call, the page size, the
  preprocessor symbols) is a \<open>platform\<close> that every function takes as its first argument.
  \<^verbatim>\<open>uint64_t\<close> and \<^verbatim>\<open>size_t\<close> (an LP64 host) are \<open>64 word\<close>, so that \<open>+\<close> wraps as in C;
  \<^verbatim>\<open>int\<close> results, which hold 0 or a negated \<^verbatim>\<open>errno\<close>, are \<open>int\<close>.
\<close>

subsection \<open>Constants of the header and of the C library\<close>

type_synonym u64 = "64 word"

definition VHOST_USER_FS_BACKEND_ENTRIES :: nat where
  "VHOST_USER_FS_BACKEND_ENTRIES = 8"

definition VHOST_USER_FS_FLAG_MAP_R :: u64 where
  "VHOST_USER_FS_FLAG_MAP_R = push_bit 0 1"

definition VHOST_USER_FS_FLAG_MAP_W :: u64 where
  "VHOST_USER_FS_FLAG_MAP_W = push_bit 1 1"

text \<open>The values of Linux's \<^verbatim>\<open>errno.h\<close> and \<^verbatim>\<open>sys/mman.h\<close>.\<close>

definition ENOENT :: int where "ENOENT = 2"
definition EBADF :: int where "EBADF = 9"
definition EINVAL :: int where "EINVAL = 22"

definition PROT_NONE :: int where "PROT_NONE = 0"
definition PROT_READ :: int where "PROT_READ = 1"
definition PROT_WRITE :: int where "PROT_WRITE = 2"

definition MAP_SHARED :: int where "MAP_SHARED = 1"
definition MAP_PRIVATE :: int where "MAP_PRIVATE = 2"
definition MAP_FIXED :: int where "MAP_FIXED = 16"
definition MAP_ANONYMOUS :: int where "MAP_ANONYMOUS = 32"

subsection \<open>Data\<close>

text \<open>
  The backend's request: four arrays of \<^verbatim>\<open>VHOST_USER_FS_BACKEND_ENTRIES\<close> values. The
  arrays are lists read with \<open>!\<close>; the code reads them at indices below 8 only.
\<close>

record VhostUserFSBackendMsg =
  fd_offset :: "u64 list"
  cache_offset :: "u64 list"
  len :: "u64 list"
  flags :: "u64 list"

text \<open>
  The device's properties. The field \<^verbatim>\<open>cache_size\<close> is \<open>conf_cache_size\<close> here, since
  \<open>cache_size\<close> names the parameter of the functions below.
\<close>

record VHostUserFSConf =
  chardev :: "string option"
  tag :: "string option"
  num_request_queues :: "16 word"
  queue_size :: "16 word"
  conf_cache_size :: u64

text \<open>
  A \<^verbatim>\<open>MemoryRegion\<close> as far as this file uses it: the name, size and host pointer that
  \<^verbatim>\<open>memory_region_init_ram_device_ptr\<close> stores.
\<close>

record MemoryRegion =
  mr_name :: string
  mr_size :: u64
  mr_ram_ptr :: u64

record VHostUserFS =
  conf :: VHostUserFSConf
  cache :: MemoryRegion

subsection \<open>The process: address space, errno, events\<close>

record mmap_args =
  m_addr :: u64
  m_length :: u64
  m_prot :: int
  m_flags :: int
  m_fd :: int
  m_offset :: u64

text \<open>What \<^verbatim>\<open>mmap\<close> returns: \<^verbatim>\<open>MAP_FAILED\<close> (with the \<^verbatim>\<open>errno\<close> it sets) or a pointer.\<close>

datatype mmap_result = MAP_FAILED int | Mapped u64

text \<open>The messages of \<^verbatim>\<open>error_report\<close> and \<^verbatim>\<open>error_setg\<close>, with their arguments.\<close>

datatype report =
    Cache_not_present
  | Map_bad_fd
  | Map_bad_range nat u64 u64
  | Map_failed nat int
  | Unmap_bad_range nat u64 u64
  | Unmap_failed nat int

datatype event = Mmap mmap_args mmap_result | Error_report report

text \<open>
  What backs one byte of the address space: its protection, whether the mapping is
  private, and where its content comes from (for a file: descriptor and file offset of
  this byte).
\<close>

datatype source = Anonymous | File_at int u64

record backing =
  b_prot :: int
  b_private :: bool
  b_source :: source

record world =
  aspace :: "u64 \<Rightarrow> backing option"
  errno :: int
  events :: "event list"

record platform =
  target_ppc64_linux :: bool
  kernel :: "event list \<Rightarrow> mmap_args \<Rightarrow> mmap_result"
  qemu_real_host_page_size :: u64
  VIRTQUEUE_MAX_SIZE :: nat
  sizeof_tag :: nat
  vhost_user_init :: bool
  vhost_dev_init :: int

text \<open>
  \<open>kernel\<close> is the host kernel's decision for an \<^verbatim>\<open>mmap\<close> call, given the events before
  it; \<open>target_ppc64_linux\<close> is \<^verbatim>\<open>defined(TARGET_PPC64) && defined(CONFIG_LINUX)\<close>;
  \<open>sizeof_tag\<close> is \<^verbatim>\<open>sizeof_field(struct virtio_fs_config, tag)\<close>; \<open>vhost_user_init\<close> and
  \<open>vhost_dev_init\<close> are the results of the transport's two initialisation calls.

  A successful \<^verbatim>\<open>mmap\<close> that returned \<open>p\<close> replaces what backs the \<open>m_length\<close> bytes from
  \<open>p\<close>: the byte at \<open>a\<close> is among them when \<open>a - p < m_length\<close> in unsigned 64-bit
  arithmetic. A failed call sets \<^verbatim>\<open>errno\<close>; the model leaves the address space as it was
  (the theorems below that speak of the address space do so for calls that succeeded).
\<close>

definition mmap_effect :: "mmap_args \<Rightarrow> u64 \<Rightarrow> (u64 \<Rightarrow> backing option) \<Rightarrow> (u64 \<Rightarrow> backing option)" where
  "mmap_effect c p m = (\<lambda>a.
     if a - p < m_length c then
       Some \<lparr>b_prot = m_prot c,
             b_private = (m_flags c AND MAP_PRIVATE \<noteq> 0),
             b_source = (if m_flags c AND MAP_ANONYMOUS \<noteq> 0 then Anonymous
                         else File_at (m_fd c) (m_offset c + (a - p)))\<rparr>
     else m a)"

definition mmap :: "platform \<Rightarrow> mmap_args \<Rightarrow> world \<Rightarrow> mmap_result \<times> world" where
  "mmap P c w =
     (let r = kernel P (events w) c in
      (r, (case r of
             MAP_FAILED e \<Rightarrow> w\<lparr>errno := e\<rparr>
           | Mapped p \<Rightarrow> w\<lparr>aspace := mmap_effect c p (aspace w)\<rparr>)
          \<lparr>events := events w @ [Mmap c r]\<rparr>))"

definition error_report :: "report \<Rightarrow> world \<Rightarrow> world" where
  "error_report m w = w\<lparr>events := events w @ [Error_report m]\<rparr>"

subsection \<open>The protection of an unmapped window\<close>

text \<open>
  \<^verbatim>\<open>DAX_WINDOW_PROT\<close> is \<^verbatim>\<open>PROT_READ\<close> when the target is PPC64 on Linux (whose kernel
  expects the memory to be accessible during addition and removal) and \<^verbatim>\<open>PROT_NONE\<close>
  otherwise.
\<close>

definition DAX_WINDOW_PROT :: "platform \<Rightarrow> int" where
  "DAX_WINDOW_PROT P = (if target_ppc64_linux P then PROT_READ else PROT_NONE)"

subsection \<open>get_cache\<close>

text \<open>
  Modelled from the spec: \<^verbatim>\<open>memory_region_get_ram_ptr\<close> (of QEMU's memory API) is not in
  the source files; the spec has it as the read-only accessor returning the current base
  address of the cache window.
\<close>

definition memory_region_get_ram_ptr :: "MemoryRegion \<Rightarrow> u64" where
  "memory_region_get_ram_ptr mr = mr_ram_ptr mr"

text \<open>
  The two out-parameters of \<^verbatim>\<open>get_cache\<close> are pointers; \<open>out_ptr\<close> says whether one is null.
  Both callers pass the addresses of their local variables. The function returns its
  result, the values it stored through \<^verbatim>\<open>cache_host\<close> and \<^verbatim>\<open>cache_size\<close>, and the world.
  The guard \<^verbatim>\<open>if (!cache_size)\<close> tests the pointer. On its branch nothing is stored through
  \<^verbatim>\<open>cache_host\<close>: the second component is then 0 and no caller reads it.
\<close>

datatype out_ptr = NULL | Addr_of_local

definition get_cache :: "VHostUserFS \<Rightarrow> out_ptr \<Rightarrow> out_ptr \<Rightarrow> world \<Rightarrow> int \<times> u64 \<times> u64 \<times> world" where
  "get_cache fs cache_host_p cache_size_p w =
     (let cache_size_v = conf_cache_size (conf fs) in
      if cache_size_p = NULL then
        (- ENOENT, 0, cache_size_v, error_report Cache_not_present w)
      else
        (0, memory_region_get_ram_ptr (cache fs), cache_size_v, w))"

subsection \<open>map_in_cache\<close>

text \<open>
  The loop of \<^verbatim>\<open>map_in_cache\<close> from slot \<open>i\<close> on. \<^verbatim>\<open>res\<close> is 0 until the loop breaks, so
  the loop returns the error where it breaks and 0 where it runs out.
\<close>

function map_loop ::
  "platform \<Rightarrow> u64 \<Rightarrow> u64 \<Rightarrow> VhostUserFSBackendMsg \<Rightarrow> int \<Rightarrow> nat \<Rightarrow> world \<Rightarrow> int \<times> world" where
  "map_loop P cache_host cache_size msg fd i w =
     (if i < VHOST_USER_FS_BACKEND_ENTRIES then
        (let e_len = len msg ! i in
         if e_len = 0 then map_loop P cache_host cache_size msg fd (i + 1) w
         else
           (let e_fd_offset = fd_offset msg ! i;
                e_cache_offset = cache_offset msg ! i;
                e_flags = flags msg ! i in
            if e_cache_offset + e_len < e_len \<or> e_cache_offset + e_len > cache_size then
              (- EINVAL, error_report (Map_bad_range i e_cache_offset e_len) w)
            else
              (case mmap P
                 \<lparr>m_addr = cache_host + e_cache_offset,
                  m_length = e_len,
                  m_prot = (if e_flags AND VHOST_USER_FS_FLAG_MAP_R \<noteq> 0 then PROT_READ else 0) OR
                           (if e_flags AND VHOST_USER_FS_FLAG_MAP_W \<noteq> 0 then PROT_WRITE else 0),
                  m_flags = MAP_SHARED OR MAP_FIXED,
                  m_fd = fd,
                  m_offset = e_fd_offset\<rparr> w of
                 (ptr, w') \<Rightarrow>
                   if ptr \<noteq> Mapped (cache_host + e_cache_offset) then
                     (- errno w', error_report (Map_failed i (errno w')) w')
                   else map_loop P cache_host cache_size msg fd (i + 1) w')))
      else (0, w))"
  by pat_completeness auto
termination
  by (relation "measure (\<lambda>(P, cache_host, cache_size, msg, fd, i, w). VHOST_USER_FS_BACKEND_ENTRIES - i)") auto

definition map_in_cache ::
  "platform \<Rightarrow> u64 \<Rightarrow> u64 \<Rightarrow> VhostUserFSBackendMsg \<Rightarrow> int \<Rightarrow> world \<Rightarrow> int \<times> world" where
  "map_in_cache P cache_host cache_size msg fd w =
     (if fd < 0 then (- EBADF, error_report Map_bad_fd w)
      else map_loop P cache_host cache_size msg fd 0 w)"

subsection \<open>unmap_in_cache\<close>

text \<open>
  The loop of \<^verbatim>\<open>unmap_in_cache\<close> from slot \<open>i\<close> on, with the value of \<^verbatim>\<open>res\<close> so far. Its
  condition is \<^verbatim>\<open>i < VHOST_USER_FS_BACKEND_ENTRIES && msg->len[i]\<close>; the \<^verbatim>\<open>&&\<close>, which reads
  \<^verbatim>\<open>msg->len[i]\<close> only when \<open>i\<close> is in range, is written as a conditional.
\<close>

function unmap_loop ::
  "platform \<Rightarrow> u64 \<Rightarrow> u64 \<Rightarrow> VhostUserFSBackendMsg \<Rightarrow> nat \<Rightarrow> int \<Rightarrow> world \<Rightarrow> int \<times> world" where
  "unmap_loop P cache_host cache_size msg i res w =
     (if (if i < VHOST_USER_FS_BACKEND_ENTRIES then len msg ! i \<noteq> 0 else False) then
        (let e_len = len msg ! i in
         if e_len = 0 then unmap_loop P cache_host cache_size msg (i + 1) res w
         else
           (let e_cache_offset = cache_offset msg ! i;
                e_len = (if e_len = NOT 0 then cache_size else e_len) in
            if e_cache_offset + e_len < e_len \<or> e_cache_offset + e_len > cache_size then
              unmap_loop P cache_host cache_size msg (i + 1) (- EINVAL)
                (error_report (Unmap_bad_range i e_cache_offset e_len) w)
            else
              (case mmap P
                 \<lparr>m_addr = cache_host + e_cache_offset,
                  m_length = e_len,
                  m_prot = DAX_WINDOW_PROT P,
                  m_flags = MAP_PRIVATE OR MAP_ANONYMOUS OR MAP_FIXED,
                  m_fd = - 1,
                  m_offset = 0\<rparr> w of
                 (ptr, w') \<Rightarrow>
                   if ptr \<noteq> Mapped (cache_host + e_cache_offset) then
                     unmap_loop P cache_host cache_size msg (i + 1) (- errno w')
                       (error_report (Unmap_failed i (errno w')) w')
                   else unmap_loop P cache_host cache_size msg (i + 1) res w')))
      else (res, w))"
  by pat_completeness auto
termination
  by (relation "measure (\<lambda>(P, cache_host, cache_size, msg, i, res, w). VHOST_USER_FS_BACKEND_ENTRIES - i)")
     (auto split: if_splits)

definition unmap_in_cache ::
  "platform \<Rightarrow> u64 \<Rightarrow> u64 \<Rightarrow> VhostUserFSBackendMsg \<Rightarrow> world \<Rightarrow> int \<times> world" where
  "unmap_in_cache P cache_host cache_size msg w = unmap_loop P cache_host cache_size msg 0 0 w"

subsection \<open>The callbacks for the backend's commands\<close>

definition vhost_user_fs_backend_map ::
  "platform \<Rightarrow> VHostUserFS \<Rightarrow> VhostUserFSBackendMsg \<Rightarrow> int \<Rightarrow> world \<Rightarrow> int \<times> world" where
  "vhost_user_fs_backend_map P fs msg fd w =
     (case get_cache fs Addr_of_local Addr_of_local w of
        (res, cache_host, cache_size, w1) \<Rightarrow>
          if res \<noteq> 0 then (res, w1)
          else
            (case map_in_cache P cache_host cache_size msg fd w1 of
               (res, w2) \<Rightarrow>
                 if res \<noteq> 0 then (res, snd (unmap_in_cache P cache_host cache_size msg w2))
                 else (res, w2)))"

definition vhost_user_fs_backend_unmap ::
  "platform \<Rightarrow> VHostUserFS \<Rightarrow> VhostUserFSBackendMsg \<Rightarrow> world \<Rightarrow> int \<times> world" where
  "vhost_user_fs_backend_unmap P fs msg w =
     (case get_cache fs Addr_of_local Addr_of_local w of
        (res, cache_host, cache_size, w1) \<Rightarrow>
          if res \<noteq> 0 then (res, w1)
          else unmap_in_cache P cache_host cache_size msg w1)"

subsection \<open>Powers of two\<close>

text \<open>
  Modelled from the spec: \<^verbatim>\<open>is_power_of_2\<close> (of \<^verbatim>\<open>qemu/host-utils.h\<close>) is not in the source
  files; the spec has the size "a power of two". For a 64-bit value that is one of
  \<open>2 ^ 0\<close>, ..., \<open>2 ^ 63\<close>.
\<close>

definition is_power_of_2 :: "u64 \<Rightarrow> bool" where
  "is_power_of_2 v \<longleftrightarrow> (\<exists>k\<in>{0..<64}. v = 2 ^ k)"

subsection \<open>vuf_device_realize\<close>

text \<open>
  The errors that \<^verbatim>\<open>vuf_device_realize\<close> sets, one for each message, and two for the errors
  that \<^verbatim>\<open>vhost_user_init\<close> and \<^verbatim>\<open>vhost_dev_init\<close> set themselves.
\<close>

datatype realize_error =
    Missing_chardev
  | Missing_tag
  | Tag_empty
  | Tag_too_long
  | No_request_queues
  | Queue_size_not_power_of_2
  | Queue_size_too_large
  | Cache_size_invalid
  | Unable_to_mmap_blank_cache
  | Vhost_user_init_failed
  | Vhost_dev_init_failed

text \<open>
  Modelled from the spec: \<^verbatim>\<open>memory_region_init_ram_device_ptr\<close> (of QEMU's memory API) is
  not in the source files; the spec has the cache window as a base, a handle to a range of
  host addresses, and a size. The function makes the region of the given name and size at
  the given host pointer.
\<close>

definition memory_region_init_ram_device_ptr :: "string \<Rightarrow> u64 \<Rightarrow> u64 \<Rightarrow> MemoryRegion" where
  "memory_region_init_ram_device_ptr name sz ptr = \<lparr>mr_name = name, mr_size = sz, mr_ram_ptr = ptr\<rparr>"

text \<open>
  \<open>realize_transport\<close> is the rest of \<^verbatim>\<open>vuf_device_realize\<close> after the cache has been set
  up: the initialisation of the vhost-user transport, whose two results are the platform's;
  the virtqueues it adds and frees are not part of the model. \<^verbatim>\<open>vuf_device_realize\<close> returns
  the error it set, if any, the device and the world.
\<close>

definition realize_transport ::
  "platform \<Rightarrow> VHostUserFS \<Rightarrow> world \<Rightarrow> realize_error option \<times> VHostUserFS \<times> world" where
  "realize_transport P fs w =
     (if \<not> vhost_user_init P then (Some Vhost_user_init_failed, fs, w)
      else if vhost_dev_init P < 0 then (Some Vhost_dev_init_failed, fs, w)
      else (None, fs, w))"

definition vuf_device_realize ::
  "platform \<Rightarrow> VHostUserFS \<Rightarrow> world \<Rightarrow> realize_error option \<times> VHostUserFS \<times> world" where
  "vuf_device_realize P fs w =
     (if chardev (conf fs) = None then (Some Missing_chardev, fs, w)
      else
        (case tag (conf fs) of
           None \<Rightarrow> (Some Missing_tag, fs, w)
         | Some t \<Rightarrow>
             if length t = 0 then (Some Tag_empty, fs, w)
             else if length t > sizeof_tag P then (Some Tag_too_long, fs, w)
             else if num_request_queues (conf fs) = 0 then (Some No_request_queues, fs, w)
             else if \<not> is_power_of_2 (ucast (queue_size (conf fs))) then
               (Some Queue_size_not_power_of_2, fs, w)
             else if unat (queue_size (conf fs)) > VIRTQUEUE_MAX_SIZE P then
               (Some Queue_size_too_large, fs, w)
             else if conf_cache_size (conf fs) \<noteq> 0 \<and>
                     (\<not> is_power_of_2 (conf_cache_size (conf fs)) \<or>
                      conf_cache_size (conf fs) < qemu_real_host_page_size P) then
               (Some Cache_size_invalid, fs, w)
             else if conf_cache_size (conf fs) \<noteq> 0 then
               (case mmap P
                  \<lparr>m_addr = 0,
                   m_length = conf_cache_size (conf fs),
                   m_prot = DAX_WINDOW_PROT P,
                   m_flags = MAP_ANONYMOUS OR MAP_PRIVATE,
                   m_fd = - 1,
                   m_offset = 0\<rparr> w of
                  (MAP_FAILED e, w') \<Rightarrow> (Some Unable_to_mmap_blank_cache, fs, w')
                | (Mapped cache_ptr, w') \<Rightarrow>
                    realize_transport P
                      (fs\<lparr>cache := memory_region_init_ram_device_ptr ''virtio-fs-cache''
                                      (conf_cache_size (conf fs)) cache_ptr\<rparr>) w')
             else realize_transport P fs w))"

section \<open>Notions of the statements\<close>

text \<open>
  A range is invalid, in the spec's words, when \<open>window_offset + length\<close> overflows the
  64-bit arithmetic or the end exceeds the size; here with the sums in \<open>nat\<close>, where
  nothing wraps. \<open>place_call\<close> is the \<^verbatim>\<open>mmap\<close> call of \<^verbatim>\<open>map_in_cache\<close> for slot \<open>i\<close>,
  \<open>clear_call\<close> the one of \<^verbatim>\<open>unmap_in_cache\<close> for an offset and a length, and
  \<open>resolved_len\<close> the length of an unmap entry once the all-ones value stands for the
  whole cache.
\<close>

definition range_invalid :: "u64 \<Rightarrow> u64 \<Rightarrow> u64 \<Rightarrow> bool" where
  "range_invalid off l sz \<longleftrightarrow> 2 ^ 64 \<le> unat off + unat l \<or> unat sz < unat off + unat l"

definition place_call :: "u64 \<Rightarrow> VhostUserFSBackendMsg \<Rightarrow> int \<Rightarrow> nat \<Rightarrow> mmap_args" where
  "place_call cache_host msg fd i =
     \<lparr>m_addr = cache_host + cache_offset msg ! i,
      m_length = len msg ! i,
      m_prot = (if flags msg ! i AND VHOST_USER_FS_FLAG_MAP_R \<noteq> 0 then PROT_READ else 0) OR
               (if flags msg ! i AND VHOST_USER_FS_FLAG_MAP_W \<noteq> 0 then PROT_WRITE else 0),
      m_flags = MAP_SHARED OR MAP_FIXED,
      m_fd = fd,
      m_offset = fd_offset msg ! i\<rparr>"

definition clear_call :: "platform \<Rightarrow> u64 \<Rightarrow> u64 \<Rightarrow> u64 \<Rightarrow> mmap_args" where
  "clear_call P cache_host off l =
     \<lparr>m_addr = cache_host + off,
      m_length = l,
      m_prot = DAX_WINDOW_PROT P,
      m_flags = MAP_PRIVATE OR MAP_ANONYMOUS OR MAP_FIXED,
      m_fd = - 1,
      m_offset = 0\<rparr>"

definition resolved_len :: "u64 \<Rightarrow> u64 \<Rightarrow> u64" where
  "resolved_len sz l = (if l = NOT 0 then sz else l)"

text \<open>
  \<open>properties_ok\<close>: the properties that \<^verbatim>\<open>vuf_device_realize\<close> checks before the cache size
  pass their checks. \<open>create_call\<close> is the \<^verbatim>\<open>mmap\<close> call that creates a cache of the given
  size.
\<close>

definition properties_ok :: "platform \<Rightarrow> VHostUserFSConf \<Rightarrow> bool" where
  "properties_ok P c \<longleftrightarrow>
     chardev c \<noteq> None \<and>
     (case tag c of None \<Rightarrow> False | Some t \<Rightarrow> t \<noteq> [] \<and> length t \<le> sizeof_tag P) \<and>
     num_request_queues c \<noteq> 0 \<and>
     is_power_of_2 (ucast (queue_size c)) \<and>
     unat (queue_size c) \<le> VIRTQUEUE_MAX_SIZE P"

definition create_call :: "platform \<Rightarrow> u64 \<Rightarrow> mmap_args" where
  "create_call P sz =
     \<lparr>m_addr = 0, m_length = sz, m_prot = DAX_WINDOW_PROT P,
      m_flags = MAP_ANONYMOUS OR MAP_PRIVATE, m_fd = - 1, m_offset = 0\<rparr>"

text \<open>
  \<open>cleared P p l w\<close> is the world \<open>w\<close> after a granted \<open>clear_call\<close> for the \<open>l\<close> bytes
  at \<open>p\<close>: those bytes are private anonymous memory with the protection
  \<^verbatim>\<open>DAX_WINDOW_PROT\<close>, every other byte is backed as before, and the call is the last event.
\<close>

definition cleared :: "platform \<Rightarrow> u64 \<Rightarrow> u64 \<Rightarrow> world \<Rightarrow> world" where
  "cleared P p l w =
     w\<lparr>aspace := (\<lambda>a. if a - p < l then
                         Some \<lparr>b_prot = DAX_WINDOW_PROT P, b_private = True, b_source = Anonymous\<rparr>
                       else aspace w a),
       events := events w @ [Mmap (clear_call P p 0 l) (Mapped p)]\<rparr>"

text \<open>
  The outcome of the loop of \<^verbatim>\<open>map_in_cache\<close> over the slots \<open>ns\<close>, from world \<open>w\<close> to result
  \<open>r\<close> and world \<open>w'\<close>. \<open>placed\<close> is the event of a granted \<open>place_call\<close>. Either every slot
  of \<open>ns\<close> was placed, in order, and the result is 0; or the slots \<open>ks\<close> before some slot \<open>k\<close>
  were placed, \<open>k\<close> has an invalid range, and the events end with its report; or the slots
  before \<open>k\<close> were placed and the call for \<open>k\<close> did not return the address asked for, and the
  events end with that call and its report. In the last two cases nothing of the slots \<open>ks'\<close>
  after \<open>k\<close> is among the events.
\<close>

definition placed :: "u64 \<Rightarrow> VhostUserFSBackendMsg \<Rightarrow> int \<Rightarrow> nat \<Rightarrow> event" where
  "placed cache_host msg fd j =
     Mmap (place_call cache_host msg fd j) (Mapped (cache_host + cache_offset msg ! j))"

definition nonzero_slots :: "VhostUserFSBackendMsg \<Rightarrow> nat \<Rightarrow> nat list" where
  "nonzero_slots msg i = filter (\<lambda>j. len msg ! j \<noteq> 0) [i..<VHOST_USER_FS_BACKEND_ENTRIES]"

definition map_outcome ::
  "platform \<Rightarrow> u64 \<Rightarrow> u64 \<Rightarrow> VhostUserFSBackendMsg \<Rightarrow> int \<Rightarrow> nat list \<Rightarrow> world \<Rightarrow> int \<Rightarrow> world \<Rightarrow> bool" where
  "map_outcome P h sz msg fd ns w r w' \<longleftrightarrow>
     (r = 0 \<and> events w' = events w @ map (placed h msg fd) ns) \<or>
     (\<exists>ks k ks'. ns = ks @ k # ks' \<and>
        range_invalid (cache_offset msg ! k) (len msg ! k) sz \<and> r = - EINVAL \<and>
        events w' = events w @ map (placed h msg fd) ks @
          [Error_report (Map_bad_range k (cache_offset msg ! k) (len msg ! k))]) \<or>
     (\<exists>ks k ks' res. ns = ks @ k # ks' \<and>
        res \<noteq> Mapped (h + cache_offset msg ! k) \<and> r = - errno w' \<and>
        events w' = events w @ map (placed h msg fd) ks @
          [Mmap (place_call h msg fd k) res, Error_report (Map_failed k (errno w'))])"

text \<open>
  An event of \<^verbatim>\<open>unmap_in_cache\<close>: a call of \<^verbatim>\<open>mmap\<close> for private anonymous memory at a fixed
  address, or one of the two reports of its loop.
\<close>

fun unmap_event :: "event \<Rightarrow> bool" where
  "unmap_event (Mmap c r) \<longleftrightarrow>
     m_flags c = (MAP_PRIVATE OR MAP_ANONYMOUS OR MAP_FIXED) \<and> m_fd c = - 1"
| "unmap_event (Error_report (Unmap_bad_range i off l)) \<longleftrightarrow> True"
| "unmap_event (Error_report (Unmap_failed i e)) \<longleftrightarrow> True"
| "unmap_event (Error_report m) \<longleftrightarrow> False"

text \<open>
  \<open>emitted w w'\<close> are the events that \<open>w'\<close> has after those of \<open>w\<close>. \<open>report_code\<close> is the
  result that the code sets where it makes a report, and \<open>last_error es r\<close> the result of the
  last report among the events \<open>es\<close>, or \<open>r\<close> when there is none.
\<close>

fun report_code :: "report \<Rightarrow> int" where
  "report_code Cache_not_present = - ENOENT"
| "report_code Map_bad_fd = - EBADF"
| "report_code (Map_bad_range i off l) = - EINVAL"
| "report_code (Map_failed i e) = - e"
| "report_code (Unmap_bad_range i off l) = - EINVAL"
| "report_code (Unmap_failed i e) = - e"

fun last_error :: "event list \<Rightarrow> int \<Rightarrow> int" where
  "last_error [] r = r"
| "last_error (Mmap c p # es) r = last_error es r"
| "last_error (Error_report m # es) r = last_error es (report_code m)"

definition emitted :: "world \<Rightarrow> world \<Rightarrow> event list" where
  "emitted w w' = drop (length (events w)) (events w')"

section \<open>A concrete host, device and batches\<close>

text \<open>
  A kernel that refuses a mapping of length 0 with \<^verbatim>\<open>EINVAL\<close>, as Linux does, grants every
  other one, and places a mapping without \<^verbatim>\<open>MAP_FIXED\<close> at \<open>0x7F0000000000\<close>; a host with
  that kernel and pages of 4096 bytes, for a PPC64 target or another; and the world of a
  process that has mapped nothing.
\<close>

definition a_kernel :: "event list \<Rightarrow> mmap_args \<Rightarrow> mmap_result" where
  "a_kernel h c =
     (if m_length c = 0 then MAP_FAILED EINVAL
      else if m_flags c AND MAP_FIXED \<noteq> 0 then Mapped (m_addr c)
      else Mapped 0x7F0000000000)"

definition a_host :: "bool \<Rightarrow> platform" where
  "a_host ppc =
     \<lparr>target_ppc64_linux = ppc, kernel = a_kernel, qemu_real_host_page_size = 4096,
      VIRTQUEUE_MAX_SIZE = 1024, sizeof_tag = 36, vhost_user_init = True, vhost_dev_init = 0\<rparr>"

definition world0 :: world where
  "world0 = \<lparr>aspace = (\<lambda>a. None), errno = 0, events = []\<rparr>"

text \<open>
  A device with valid properties whose cache has not been created; the device and the
  world that \<^verbatim>\<open>vuf_device_realize\<close> makes of it on the host that is not PPC64.
\<close>

definition unrealized_device :: "u64 \<Rightarrow> VHostUserFS" where
  "unrealized_device sz =
     \<lparr>conf = \<lparr>chardev = Some ''char0'', tag = Some ''myfs'', num_request_queues = 1,
              queue_size = 128, conf_cache_size = sz\<rparr>,
      cache = \<lparr>mr_name = [], mr_size = 0, mr_ram_ptr = 0\<rparr>\<rparr>"

definition a_device :: "u64 \<Rightarrow> VHostUserFS" where
  "a_device sz = fst (snd (vuf_device_realize (a_host False) (unrealized_device sz) world0))"

definition a_world :: "u64 \<Rightarrow> world" where
  "a_world sz = snd (snd (vuf_device_realize (a_host False) (unrealized_device sz) world0))"

text \<open>
  A request from a list of entries (file offset, cache offset, length, flags), the
  remaining slots zero.
\<close>

definition batch :: "(u64 \<times> u64 \<times> u64 \<times> u64) list \<Rightarrow> VhostUserFSBackendMsg" where
  "batch es =
     (let es8 = take 8 (es @ replicate 8 (0, 0, 0, 0)) in
      \<lparr>fd_offset = map (\<lambda>(f, c, l, g). f) es8,
       cache_offset = map (\<lambda>(f, c, l, g). c) es8,
       len = map (\<lambda>(f, c, l, g). l) es8,
       flags = map (\<lambda>(f, c, l, g). g) es8\<rparr>)"

text \<open>
  The world after the first page of the file with descriptor 3 has been mapped, readable,
  onto a cache of one page; and the world after the first two pages of that file have been
  mapped onto a cache of two pages.
\<close>

definition mapped_world :: world where
  "mapped_world =
     snd (vhost_user_fs_backend_map (a_host False) (a_device 4096) (batch [(0, 0, 4096, 1)]) 3
            (a_world 4096))"

definition two_pages_world :: world where
  "two_pages_world =
     snd (vhost_user_fs_backend_map (a_host False) (a_device 8192)
            (batch [(0, 0, 4096, 1), (4096, 4096, 4096, 1)]) 3 (a_world 8192))"

section \<open>The bounds check\<close>

declare map_loop.simps [simp del] unmap_loop.simps [simp del]

lemma overflow_check: "(off + l < l) \<longleftrightarrow> 2 ^ 64 \<le> unat off + unat l" for off l :: u64
proof -
  have "(l \<le> l + off) = (unat l + unat off < 2 ^ 64)"
    using no_olen_add_nat [of l off] by simp
  then show ?thesis by (simp add: add.commute not_le [symmetric])
qed

lemma beyond_check:
  "unat off + unat l < 2 ^ 64 \<Longrightarrow> (off + l > sz) \<longleftrightarrow> unat sz < unat off + unat l"
  for off l sz :: u64
  by (simp add: word_less_nat_alt unat_add_lem [THEN iffD1])

lemma bounds_check:
  "(off + l < l \<or> off + l > sz) \<longleftrightarrow> range_invalid off l sz" for off l sz :: u64
  using overflow_check [of off l] beyond_check [of off l sz]
  unfolding range_invalid_def by (cases "unat off + unat l < 2 ^ 64") auto

lemma mmap_fst: "fst (mmap P c w) = kernel P (events w) c"
  by (simp add: mmap_def Let_def)

lemma mmap_events: "events (snd (mmap P c w)) = events w @ [Mmap c (kernel P (events w) c)]"
  by (simp add: mmap_def Let_def split: mmap_result.split)

lemma error_report_events: "events (error_report m w) = events w @ [Error_report m]"
  by (simp add: error_report_def)

lemma map_loop_end:
  "\<not> i < VHOST_USER_FS_BACKEND_ENTRIES \<Longrightarrow> map_loop P h sz msg fd i w = (0, w)"
  by (subst map_loop.simps) simp

lemma map_loop_skip:
  "i < VHOST_USER_FS_BACKEND_ENTRIES \<Longrightarrow> len msg ! i = 0 \<Longrightarrow>
   map_loop P h sz msg fd i w = map_loop P h sz msg fd (Suc i) w"
  by (subst map_loop.simps) simp

lemma map_loop_reject:
  "i < VHOST_USER_FS_BACKEND_ENTRIES \<Longrightarrow> len msg ! i \<noteq> 0 \<Longrightarrow>
   range_invalid (cache_offset msg ! i) (len msg ! i) sz \<Longrightarrow>
   map_loop P h sz msg fd i w =
     (- EINVAL, error_report (Map_bad_range i (cache_offset msg ! i) (len msg ! i)) w)"
  by (subst map_loop.simps) (simp add: Let_def bounds_check)

lemma map_loop_place:
  "i < VHOST_USER_FS_BACKEND_ENTRIES \<Longrightarrow> len msg ! i \<noteq> 0 \<Longrightarrow>
   \<not> range_invalid (cache_offset msg ! i) (len msg ! i) sz \<Longrightarrow>
   map_loop P h sz msg fd i w =
     (if kernel P (events w) (place_call h msg fd i) \<noteq> Mapped (h + cache_offset msg ! i) then
        (- errno (snd (mmap P (place_call h msg fd i) w)),
         error_report (Map_failed i (errno (snd (mmap P (place_call h msg fd i) w))))
           (snd (mmap P (place_call h msg fd i) w)))
      else map_loop P h sz msg fd (Suc i) (snd (mmap P (place_call h msg fd i) w)))"
  by (subst map_loop.simps)
     (simp add: Let_def bounds_check place_call_def [symmetric] mmap_fst [symmetric] split: prod.split)

lemma unmap_loop_end:
  "\<not> i < VHOST_USER_FS_BACKEND_ENTRIES \<or> len msg ! i = 0 \<Longrightarrow>
   unmap_loop P h sz msg i res w = (res, w)"
  by (subst unmap_loop.simps) auto

lemma unmap_loop_reject:
  "i < VHOST_USER_FS_BACKEND_ENTRIES \<Longrightarrow> len msg ! i \<noteq> 0 \<Longrightarrow>
   range_invalid (cache_offset msg ! i) (resolved_len sz (len msg ! i)) sz \<Longrightarrow>
   unmap_loop P h sz msg i res w =
     unmap_loop P h sz msg (Suc i) (- EINVAL)
       (error_report (Unmap_bad_range i (cache_offset msg ! i) (resolved_len sz (len msg ! i))) w)"
  by (subst unmap_loop.simps) (simp add: Let_def bounds_check resolved_len_def)

lemma unmap_loop_clear:
  "i < VHOST_USER_FS_BACKEND_ENTRIES \<Longrightarrow> len msg ! i \<noteq> 0 \<Longrightarrow>
   \<not> range_invalid (cache_offset msg ! i) (resolved_len sz (len msg ! i)) sz \<Longrightarrow>
   c = clear_call P h (cache_offset msg ! i) (resolved_len sz (len msg ! i)) \<Longrightarrow>
   unmap_loop P h sz msg i res w =
     (if kernel P (events w) c \<noteq> Mapped (h + cache_offset msg ! i) then
        unmap_loop P h sz msg (Suc i) (- errno (snd (mmap P c w)))
          (error_report (Unmap_failed i (errno (snd (mmap P c w)))) (snd (mmap P c w)))
      else unmap_loop P h sz msg (Suc i) res (snd (mmap P c w)))"
  by (subst unmap_loop.simps)
     (simp add: Let_def bounds_check resolved_len_def clear_call_def mmap_fst [symmetric] split: prod.split)

lemma map_loop_events: "\<exists>es. events (snd (map_loop P h sz msg fd i w)) = events w @ es"
proof (induction k \<equiv> "VHOST_USER_FS_BACKEND_ENTRIES - i" arbitrary: i w)
  case 0
  then show ?case by (simp add: map_loop_end)
next
  case (Suc k)
  then have lt: "i < VHOST_USER_FS_BACKEND_ENTRIES" by simp
  have IH: "\<exists>es. events (snd (map_loop P h sz msg fd (Suc i) w')) = events w' @ es" for w'
    using Suc by simp
  show ?case
  proof (cases "len msg ! i = 0")
    case True
    with lt IH show ?thesis by (simp add: map_loop_skip)
  next
    case nz: False
    show ?thesis
    proof (cases "range_invalid (cache_offset msg ! i) (len msg ! i) sz")
      case True
      with lt nz show ?thesis by (simp add: map_loop_reject error_report_events)
    next
      case False
      with lt nz IH [of "snd (mmap P (place_call h msg fd i) w)"] show ?thesis
        by (auto simp add: map_loop_place error_report_events mmap_events)
    qed
  qed
qed

lemma unmap_loop_events: "\<exists>es. events (snd (unmap_loop P h sz msg i res w)) = events w @ es"
proof (induction k \<equiv> "VHOST_USER_FS_BACKEND_ENTRIES - i" arbitrary: i res w)
  case 0
  then show ?case by (simp add: unmap_loop_end)
next
  case (Suc k)
  then have lt: "i < VHOST_USER_FS_BACKEND_ENTRIES" by simp
  have IH: "\<exists>es. events (snd (unmap_loop P h sz msg (Suc i) res' w')) = events w' @ es" for res' w'
    using Suc by simp
  show ?case
  proof (cases "len msg ! i = 0")
    case True
    then show ?thesis by (simp add: unmap_loop_end)
  next
    case nz: False
    let ?l = "resolved_len sz (len msg ! i)"
    show ?thesis
    proof (cases "range_invalid (cache_offset msg ! i) ?l sz")
      case True
      with lt nz IH [of "- EINVAL" "error_report (Unmap_bad_range i (cache_offset msg ! i) ?l) w"]
      show ?thesis by (auto simp add: unmap_loop_reject error_report_events)
    next
      case False
      let ?c = "clear_call P h (cache_offset msg ! i) ?l"
      let ?w = "snd (mmap P ?c w)"
      from lt nz False IH [of res ?w]
        IH [of "- errno ?w" "error_report (Unmap_failed i (errno ?w)) ?w"]
      show ?thesis
        by (auto simp add: unmap_loop_clear [OF lt nz False refl] error_report_events mmap_events)
    qed
  qed
qed

section \<open>Validation of one entry\<close>

text \<open>
  C3. When either loop reaches a slot \<open>i\<close> whose length is not zero, the entry is
  rejected exactly when its range is invalid: when \<open>cache_offset + len\<close> overflows 64 bits
  or, not overflowing, exceeds the cache size (for an unmap entry with the length taken
  after the all-ones value has been resolved). Rejection in \<^verbatim>\<open>map_in_cache\<close> is the return
  of \<open>- EINVAL\<close> with the world changed by the error report only; in \<^verbatim>\<open>unmap_in_cache\<close> it
  is the step to the next slot with \<^verbatim>\<open>res\<close> set to \<open>- EINVAL\<close> and the world changed by
  the error report only: in neither is there a call of \<^verbatim>\<open>mmap\<close> for the entry. An entry
  that is not rejected has its \<^verbatim>\<open>mmap\<close> call as the next event, and an entry whose end
  equals the size is not rejected.
\<close>

theorem bounds_validation:
  assumes "i < VHOST_USER_FS_BACKEND_ENTRIES" and "len msg ! i \<noteq> 0"
  shows "(range_invalid (cache_offset msg ! i) (len msg ! i) sz \<longleftrightarrow>
          map_loop P h sz msg fd i w =
            (- EINVAL, error_report (Map_bad_range i (cache_offset msg ! i) (len msg ! i)) w)) \<and>
         (range_invalid (cache_offset msg ! i) (resolved_len sz (len msg ! i)) sz \<longleftrightarrow>
          unmap_loop P h sz msg i res w =
            unmap_loop P h sz msg (Suc i) (- EINVAL)
              (error_report
                 (Unmap_bad_range i (cache_offset msg ! i) (resolved_len sz (len msg ! i))) w)) \<and>
         (\<not> range_invalid (cache_offset msg ! i) (len msg ! i) sz \<longrightarrow>
          (\<exists>es. events (snd (map_loop P h sz msg fd i w)) =
                  events w @
                  Mmap (place_call h msg fd i) (kernel P (events w) (place_call h msg fd i)) # es)) \<and>
         (\<not> range_invalid (cache_offset msg ! i) (resolved_len sz (len msg ! i)) sz \<longrightarrow>
          (\<exists>es. events (snd (unmap_loop P h sz msg i res w)) =
                  events w @
                  Mmap (clear_call P h (cache_offset msg ! i) (resolved_len sz (len msg ! i)))
                    (kernel P (events w)
                       (clear_call P h (cache_offset msg ! i) (resolved_len sz (len msg ! i)))) # es)) \<and>
         (unat (cache_offset msg ! i) + unat (len msg ! i) = unat sz \<longrightarrow>
          \<not> range_invalid (cache_offset msg ! i) (len msg ! i) sz)"
proof -
  let ?off = "cache_offset msg ! i"
  let ?l = "len msg ! i"
  let ?l' = "resolved_len sz ?l"
  let ?pc = "place_call h msg fd i"
  let ?cc = "clear_call P h ?off ?l'"
  have map_ok: "\<exists>es. events (snd (map_loop P h sz msg fd i w)) =
                  events w @ Mmap ?pc (kernel P (events w) ?pc) # es"
    if ok: "\<not> range_invalid ?off ?l sz"
  proof -
    let ?w = "snd (mmap P ?pc w)"
    obtain es where "events (snd (map_loop P h sz msg fd (Suc i) ?w)) = events ?w @ es"
      using map_loop_events by blast
    with assms ok show ?thesis
      by (auto simp add: map_loop_place error_report_events mmap_events)
  qed
  have unmap_ok: "\<exists>es. events (snd (unmap_loop P h sz msg i res w)) =
                  events w @ Mmap ?cc (kernel P (events w) ?cc) # es"
    if ok: "\<not> range_invalid ?off ?l' sz"
  proof -
    let ?w = "snd (mmap P ?cc w)"
    obtain es where "events (snd (unmap_loop P h sz msg (Suc i) res ?w)) = events ?w @ es"
      using unmap_loop_events by blast
    moreover obtain es' where
      "events (snd (unmap_loop P h sz msg (Suc i) (- errno ?w)
                 (error_report (Unmap_failed i (errno ?w)) ?w))) =
       events (error_report (Unmap_failed i (errno ?w)) ?w) @ es'"
      using unmap_loop_events by blast
    ultimately show ?thesis
      using assms ok
      by (auto simp add: unmap_loop_clear [OF assms ok refl] error_report_events mmap_events)
  qed
  have map_iff: "range_invalid ?off ?l sz \<longleftrightarrow>
     map_loop P h sz msg fd i w = (- EINVAL, error_report (Map_bad_range i ?off ?l) w)"
  proof (cases "range_invalid ?off ?l sz")
    case True
    with assms show ?thesis by (simp add: map_loop_reject)
  next
    case False
    from map_ok [OF False]
    have "events (snd (map_loop P h sz msg fd i w)) \<noteq>
          events (error_report (Map_bad_range i ?off ?l) w)"
      by (auto simp add: error_report_events)
    with False show ?thesis by auto
  qed
  have unmap_iff: "range_invalid ?off ?l' sz \<longleftrightarrow>
     unmap_loop P h sz msg i res w =
       unmap_loop P h sz msg (Suc i) (- EINVAL) (error_report (Unmap_bad_range i ?off ?l') w)"
  proof (cases "range_invalid ?off ?l' sz")
    case True
    with assms show ?thesis by (simp add: unmap_loop_reject)
  next
    case False
    obtain es where "events (snd (unmap_loop P h sz msg (Suc i) (- EINVAL)
                       (error_report (Unmap_bad_range i ?off ?l') w))) =
                     events (error_report (Unmap_bad_range i ?off ?l') w) @ es"
      using unmap_loop_events by blast
    with unmap_ok [OF False]
    have "events (snd (unmap_loop P h sz msg i res w)) \<noteq>
          events (snd (unmap_loop P h sz msg (Suc i) (- EINVAL)
                       (error_report (Unmap_bad_range i ?off ?l') w)))"
      by (auto simp add: error_report_events)
    with False show ?thesis by auto
  qed
  have exact: "unat ?off + unat ?l = unat sz \<longrightarrow> \<not> range_invalid ?off ?l sz"
    using unsigned_less [of sz, where ?'a = nat] by (simp add: range_invalid_def not_le)
  from map_iff unmap_iff map_ok unmap_ok exact show ?thesis by blast
qed

theorem bounds_validation_witness:
  "(0::nat) < VHOST_USER_FS_BACKEND_ENTRIES \<and>
   len (batch [(0, 0, 4097, 1)]) ! 0 \<noteq> 0 \<and>
   range_invalid 0 4097 4096 \<and>
   map_loop (a_host False) 0x7F0000000000 4096 (batch [(0, 0, 4097, 1)]) 3 0 (a_world 4096) =
     (- EINVAL, error_report (Map_bad_range 0 0 4097) (a_world 4096)) \<and>
   unmap_loop (a_host False) 0x7F0000000000 4096 (batch [(0, 0, 4097, 1)]) 0 0 (a_world 4096) =
     unmap_loop (a_host False) 0x7F0000000000 4096 (batch [(0, 0, 4097, 1)]) (Suc 0) (- EINVAL)
       (error_report (Unmap_bad_range 0 0 4097) (a_world 4096)) \<and>
   len (batch [(0, 0, 4096, 1)]) ! 0 \<noteq> 0 \<and>
   unat (cache_offset (batch [(0, 0, 4096, 1)]) ! 0) + unat (len (batch [(0, 0, 4096, 1)]) ! 0) =
     unat (4096 :: u64) \<and>
   \<not> range_invalid 0 4096 4096 \<and>
   (\<exists>es. events (snd (map_loop (a_host False) 0x7F0000000000 4096 (batch [(0, 0, 4096, 1)]) 3 0
                        (a_world 4096))) =
           events (a_world 4096) @
           Mmap (place_call 0x7F0000000000 (batch [(0, 0, 4096, 1)]) 3 0) (Mapped 0x7F0000000000) # es) \<and>
   (\<exists>es. events (snd (unmap_loop (a_host False) 0x7F0000000000 4096 (batch [(0, 0, 4096, 1)]) 0 0
                        (a_world 4096))) =
           events (a_world 4096) @
           Mmap (clear_call (a_host False) 0x7F0000000000 0 4096) (Mapped 0x7F0000000000) # es)"
proof -
  have h1: "(0::nat) < VHOST_USER_FS_BACKEND_ENTRIES"
    by (simp add: VHOST_USER_FS_BACKEND_ENTRIES_def)
  have e: "cache_offset (batch [(0, 0, 4097, 1)]) ! 0 = 0" "len (batch [(0, 0, 4097, 1)]) ! 0 = 4097"
    by (simp_all add: batch_def)
  have h2: "len (batch [(0, 0, 4097, 1)]) ! 0 \<noteq> 0"
    by (simp add: e)
  have inv: "range_invalid 0 4097 4096" "\<not> range_invalid 0 4096 4096"
    by (simp_all add: range_invalid_def)
  have r: "resolved_len 4096 4097 = 4097" "resolved_len 4096 4096 = 4096"
    by (simp_all add: resolved_len_def)
  have e': "cache_offset (batch [(0, 0, 4096, 1)]) ! 0 = 0" "len (batch [(0, 0, 4096, 1)]) ! 0 = 4096"
    by (simp_all add: batch_def)
  have h2': "len (batch [(0, 0, 4096, 1)]) ! 0 \<noteq> 0"
    by (simp add: e')
  have k: "kernel (a_host False) (events (a_world 4096))
             (place_call 0x7F0000000000 (batch [(0, 0, 4096, 1)]) 3 0) = Mapped 0x7F0000000000"
    "kernel (a_host False) (events (a_world 4096))
       (clear_call (a_host False) 0x7F0000000000 0 4096) = Mapped 0x7F0000000000"
    by code_simp+
  note t1 = bounds_validation [OF h1 h2, of 4096 "a_host False" "0x7F0000000000" 3 "a_world 4096" 0]
  note t2 = bounds_validation [OF h1 h2', of 4096 "a_host False" "0x7F0000000000" 3 "a_world 4096" 0]
  from t1 inv have a: "map_loop (a_host False) 0x7F0000000000 4096 (batch [(0, 0, 4097, 1)]) 3 0 (a_world 4096) =
     (- EINVAL, error_report (Map_bad_range 0 0 4097) (a_world 4096)) \<and>
   unmap_loop (a_host False) 0x7F0000000000 4096 (batch [(0, 0, 4097, 1)]) 0 0 (a_world 4096) =
     unmap_loop (a_host False) 0x7F0000000000 4096 (batch [(0, 0, 4097, 1)]) (Suc 0) (- EINVAL)
       (error_report (Unmap_bad_range 0 0 4097) (a_world 4096))"
    by (simp add: e r)
  from t2 inv have b: "(\<exists>es. events (snd (map_loop (a_host False) 0x7F0000000000 4096 (batch [(0, 0, 4096, 1)]) 3 0
                        (a_world 4096))) =
           events (a_world 4096) @
           Mmap (place_call 0x7F0000000000 (batch [(0, 0, 4096, 1)]) 3 0) (Mapped 0x7F0000000000) # es) \<and>
   (\<exists>es. events (snd (unmap_loop (a_host False) 0x7F0000000000 4096 (batch [(0, 0, 4096, 1)]) 0 0
                        (a_world 4096))) =
           events (a_world 4096) @
           Mmap (clear_call (a_host False) 0x7F0000000000 0 4096) (Mapped 0x7F0000000000) # es)"
    by (simp add: e' r k)
  have u: "unat (cache_offset (batch [(0, 0, 4096, 1)]) ! 0) + unat (len (batch [(0, 0, 4096, 1)]) ! 0) =
     unat (4096 :: u64)"
    by (simp add: e')
  from h1 h2 inv a h2' u b show ?thesis by blast
qed

section \<open>The loop of map_in_cache\<close>

lemma nonzero_slots_end: "\<not> i < VHOST_USER_FS_BACKEND_ENTRIES \<Longrightarrow> nonzero_slots msg i = []"
  by (simp add: nonzero_slots_def)

lemma nonzero_slots_step:
  "i < VHOST_USER_FS_BACKEND_ENTRIES \<Longrightarrow>
   nonzero_slots msg i = (if len msg ! i \<noteq> 0 then [i] else []) @ nonzero_slots msg (Suc i)"
  by (simp add: nonzero_slots_def upt_conv_Cons)

lemma map_outcome_Cons:
  assumes "map_outcome P h sz msg fd ns w1 r w'" and "events w1 = events w @ [placed h msg fd i]"
  shows "map_outcome P h sz msg fd (i # ns) w r w'"
  using assms unfolding map_outcome_def
  apply (elim disjE exE conjE)
    apply simp
   apply (rule disjI2, rule disjI1)
   subgoal for ks k ks' by (rule exI [of _ "i # ks"]) auto
  apply (rule disjI2, rule disjI2)
  subgoal for ks k ks' res by (rule exI [of _ "i # ks"]) auto
  done

lemma map_loop_trace:
  "map_outcome P h sz msg fd (nonzero_slots msg i) w
     (fst (map_loop P h sz msg fd i w)) (snd (map_loop P h sz msg fd i w))"
proof (induction k \<equiv> "VHOST_USER_FS_BACKEND_ENTRIES - i" arbitrary: i w)
  case 0
  then show ?case by (simp add: map_loop_end nonzero_slots_end map_outcome_def)
next
  case (Suc k)
  then have lt: "i < VHOST_USER_FS_BACKEND_ENTRIES" by simp
  have IH: "map_outcome P h sz msg fd (nonzero_slots msg (Suc i)) w'
     (fst (map_loop P h sz msg fd (Suc i) w')) (snd (map_loop P h sz msg fd (Suc i) w'))" for w'
    using Suc by simp
  show ?case
  proof (cases "len msg ! i = 0")
    case True
    with lt IH show ?thesis by (simp add: map_loop_skip nonzero_slots_step)
  next
    case nz: False
    then have ns: "nonzero_slots msg i = i # nonzero_slots msg (Suc i)"
      using lt by (simp add: nonzero_slots_step)
    show ?thesis
    proof (cases "range_invalid (cache_offset msg ! i) (len msg ! i) sz")
      case True
      have "map_outcome P h sz msg fd (i # nonzero_slots msg (Suc i)) w (- EINVAL)
              (error_report (Map_bad_range i (cache_offset msg ! i) (len msg ! i)) w)"
        unfolding map_outcome_def
        by (rule disjI2, rule disjI1, rule exI [of _ "[]"]) (simp add: True error_report_events)
      with lt nz True ns show ?thesis by (simp add: map_loop_reject)
    next
      case ok: False
      let ?c = "place_call h msg fd i"
      let ?w = "snd (mmap P ?c w)"
      show ?thesis
      proof (cases "kernel P (events w) ?c = Mapped (h + cache_offset msg ! i)")
        case True
        then have "events ?w = events w @ [placed h msg fd i]"
          by (simp add: mmap_events placed_def)
        from map_outcome_Cons [OF IH [of ?w] this] lt nz ok True ns
        show ?thesis by (simp add: map_loop_place)
      next
        case False
        have "map_outcome P h sz msg fd (i # nonzero_slots msg (Suc i)) w (- errno ?w)
                (error_report (Map_failed i (errno ?w)) ?w)"
          unfolding map_outcome_def
          apply (rule disjI2, rule disjI2, rule exI [of _ "[]"])
          using False by (auto simp add: error_report_events mmap_events error_report_def)
        with lt nz ok False ns show ?thesis by (simp add: map_loop_place)
      qed
    qed
  qed
qed

lemma unmap_loop_events_kind:
  "\<exists>es. events (snd (unmap_loop P h sz msg i res w)) = events w @ es \<and> list_all unmap_event es"
proof (induction k \<equiv> "VHOST_USER_FS_BACKEND_ENTRIES - i" arbitrary: i res w)
  case 0
  then show ?case by (simp add: unmap_loop_end)
next
  case (Suc k)
  then have lt: "i < VHOST_USER_FS_BACKEND_ENTRIES" by simp
  have IH: "\<exists>es. events (snd (unmap_loop P h sz msg (Suc i) res' w')) = events w' @ es \<and>
              list_all unmap_event es" for res' w'
    using Suc by simp
  show ?case
  proof (cases "len msg ! i = 0")
    case True
    then show ?thesis by (simp add: unmap_loop_end)
  next
    case nz: False
    let ?l = "resolved_len sz (len msg ! i)"
    show ?thesis
    proof (cases "range_invalid (cache_offset msg ! i) ?l sz")
      case True
      with lt nz IH [of "- EINVAL" "error_report (Unmap_bad_range i (cache_offset msg ! i) ?l) w"]
      show ?thesis by (auto simp add: unmap_loop_reject error_report_events)
    next
      case False
      let ?c = "clear_call P h (cache_offset msg ! i) ?l"
      let ?w = "snd (mmap P ?c w)"
      have c: "unmap_event (Mmap ?c r)" for r
        by (simp add: clear_call_def)
      from lt nz False IH [of res ?w]
        IH [of "- errno ?w" "error_report (Unmap_failed i (errno ?w)) ?w"] c
      show ?thesis
        by (auto simp add: unmap_loop_clear [OF lt nz False refl] error_report_events mmap_events)
    qed
  qed
qed

lemma get_cache_local:
  "get_cache fs Addr_of_local Addr_of_local w =
     (0, memory_region_get_ram_ptr (cache fs), conf_cache_size (conf fs), w)"
  by (simp add: get_cache_def)

lemma backend_map_unfold:
  "vhost_user_fs_backend_map P fs msg fd w =
     (let h = memory_region_get_ram_ptr (cache fs); sz = conf_cache_size (conf fs);
          rw = map_in_cache P h sz msg fd w in
      if fst rw \<noteq> 0 then (fst rw, snd (unmap_in_cache P h sz msg (snd rw))) else rw)"
  by (simp add: vhost_user_fs_backend_map_def get_cache_local Let_def split: prod.split)

lemma backend_unmap_unfold:
  "vhost_user_fs_backend_unmap P fs msg w =
     unmap_in_cache P (memory_region_get_ram_ptr (cache fs)) (conf_cache_size (conf fs)) msg w"
  by (simp add: vhost_user_fs_backend_unmap_def get_cache_local)

text \<open>
  C8. With a file descriptor that is not negative, \<^verbatim>\<open>map_in_cache\<close> goes through the slots
  whose length is not zero in slot order (\<open>nonzero_slots msg 0\<close>) and stops at the first
  failure, as \<open>map_outcome\<close> says in full: the events it adds are the granted calls for the
  slots before the failing one and then the failure itself (the report of the invalid
  range, or the refused call and its report), and its result is the error of that entry;
  nothing of a later slot is among them. \<^verbatim>\<open>vhost_user_fs_backend_map\<close> returns that same
  result, and what it adds after the events of \<^verbatim>\<open>map_in_cache\<close> are events of the rollback
  only: calls for anonymous memory and reports of \<^verbatim>\<open>unmap_in_cache\<close>, no call mapping the
  file and no report of the mapping loop.
\<close>

theorem map_stops_at_first_failure:
  assumes "0 \<le> fd"
  shows "map_outcome P h sz msg fd (nonzero_slots msg 0) w
           (fst (map_in_cache P h sz msg fd w)) (snd (map_in_cache P h sz msg fd w)) \<and>
         fst (vhost_user_fs_backend_map P fs msg fd w) =
           fst (map_in_cache P (memory_region_get_ram_ptr (cache fs)) (conf_cache_size (conf fs))
                  msg fd w) \<and>
         (\<exists>es. events (snd (vhost_user_fs_backend_map P fs msg fd w)) =
                 events (snd (map_in_cache P (memory_region_get_ram_ptr (cache fs))
                                (conf_cache_size (conf fs)) msg fd w)) @ es \<and>
               list_all unmap_event es)"
proof -
  let ?h = "memory_region_get_ram_ptr (cache fs)"
  let ?sz = "conf_cache_size (conf fs)"
  let ?rw = "map_in_cache P ?h ?sz msg fd w"
  have 1: "map_outcome P h sz msg fd (nonzero_slots msg 0) w
           (fst (map_in_cache P h sz msg fd w)) (snd (map_in_cache P h sz msg fd w))"
    using assms map_loop_trace [of P h sz msg fd 0 w] by (simp add: map_in_cache_def)
  have 2: "fst (vhost_user_fs_backend_map P fs msg fd w) = fst ?rw"
    by (simp add: backend_map_unfold Let_def)
  have 3: "\<exists>es. events (snd (vhost_user_fs_backend_map P fs msg fd w)) = events (snd ?rw) @ es \<and>
               list_all unmap_event es"
  proof (cases "fst ?rw = 0")
    case True
    then show ?thesis by (simp add: backend_map_unfold Let_def)
  next
    case False
    with unmap_loop_events_kind [of P ?h ?sz msg 0 0 "snd ?rw"] show ?thesis
      by (simp add: backend_map_unfold Let_def unmap_in_cache_def)
  qed
  from 1 2 3 show ?thesis by blast
qed

theorem map_stops_at_first_failure_witness:
  "(0::int) \<le> 3 \<and>
   map_outcome (a_host False) 0x7F0000000000 8192
     (batch [(0, 0, 4096, 1), (0, 0, 0, 0), (0, 8192, 1, 1), (0, 4096, 4096, 3)]) 3
     (nonzero_slots (batch [(0, 0, 4096, 1), (0, 0, 0, 0), (0, 8192, 1, 1), (0, 4096, 4096, 3)]) 0)
     (a_world 8192)
     (fst (map_in_cache (a_host False) 0x7F0000000000 8192
            (batch [(0, 0, 4096, 1), (0, 0, 0, 0), (0, 8192, 1, 1), (0, 4096, 4096, 3)]) 3 (a_world 8192)))
     (snd (map_in_cache (a_host False) 0x7F0000000000 8192
            (batch [(0, 0, 4096, 1), (0, 0, 0, 0), (0, 8192, 1, 1), (0, 4096, 4096, 3)]) 3 (a_world 8192))) \<and>
   nonzero_slots (batch [(0, 0, 4096, 1), (0, 0, 0, 0), (0, 8192, 1, 1), (0, 4096, 4096, 3)]) 0 =
     [0, 2, 3] \<and>
   fst (map_in_cache (a_host False) 0x7F0000000000 8192
          (batch [(0, 0, 4096, 1), (0, 0, 0, 0), (0, 8192, 1, 1), (0, 4096, 4096, 3)]) 3 (a_world 8192)) =
     - EINVAL \<and>
   events (snd (map_in_cache (a_host False) 0x7F0000000000 8192
          (batch [(0, 0, 4096, 1), (0, 0, 0, 0), (0, 8192, 1, 1), (0, 4096, 4096, 3)]) 3 (a_world 8192))) =
     events (a_world 8192) @
     [placed 0x7F0000000000
        (batch [(0, 0, 4096, 1), (0, 0, 0, 0), (0, 8192, 1, 1), (0, 4096, 4096, 3)]) 3 0,
      Error_report (Map_bad_range 2 8192 1)]"
proof -
  have fd: "(0::int) \<le> 3" by simp
  have ns: "nonzero_slots (batch [(0, 0, 4096, 1), (0, 0, 0, 0), (0, 8192, 1, 1), (0, 4096, 4096, 3)]) 0 =
     [0, 2, 3]"
    by code_simp
  have r: "fst (map_in_cache (a_host False) 0x7F0000000000 8192
          (batch [(0, 0, 4096, 1), (0, 0, 0, 0), (0, 8192, 1, 1), (0, 4096, 4096, 3)]) 3 (a_world 8192)) =
     - EINVAL"
    by code_simp
  have es: "events (snd (map_in_cache (a_host False) 0x7F0000000000 8192
          (batch [(0, 0, 4096, 1), (0, 0, 0, 0), (0, 8192, 1, 1), (0, 4096, 4096, 3)]) 3 (a_world 8192))) =
     events (a_world 8192) @
     [placed 0x7F0000000000
        (batch [(0, 0, 4096, 1), (0, 0, 0, 0), (0, 8192, 1, 1), (0, 4096, 4096, 3)]) 3 0,
      Error_report (Map_bad_range 2 8192 1)]"
    by code_simp
  from map_stops_at_first_failure [OF fd, of "a_host False" "0x7F0000000000" 8192
      "batch [(0, 0, 4096, 1), (0, 0, 0, 0), (0, 8192, 1, 1), (0, 4096, 4096, 3)]" "a_world 8192"]
  have "map_outcome (a_host False) 0x7F0000000000 8192
     (batch [(0, 0, 4096, 1), (0, 0, 0, 0), (0, 8192, 1, 1), (0, 4096, 4096, 3)]) 3
     (nonzero_slots (batch [(0, 0, 4096, 1), (0, 0, 0, 0), (0, 8192, 1, 1), (0, 4096, 4096, 3)]) 0)
     (a_world 8192)
     (fst (map_in_cache (a_host False) 0x7F0000000000 8192
            (batch [(0, 0, 4096, 1), (0, 0, 0, 0), (0, 8192, 1, 1), (0, 4096, 4096, 3)]) 3 (a_world 8192)))
     (snd (map_in_cache (a_host False) 0x7F0000000000 8192
            (batch [(0, 0, 4096, 1), (0, 0, 0, 0), (0, 8192, 1, 1), (0, 4096, 4096, 3)]) 3 (a_world 8192)))"
    by blast
  with fd ns r es show ?thesis by blast
qed

section \<open>A bad file descriptor\<close>

text \<open>
  C6, as the code has it. With a negative file descriptor \<^verbatim>\<open>map_in_cache\<close> returns
  \<open>- EBADF\<close> at once: the world it returns is the one it was given with the report
  "map called with bad FD" added, so no entry was validated and \<^verbatim>\<open>mmap\<close> was not called.
  \<^verbatim>\<open>vhost_user_fs_backend_map\<close> returns \<open>- EBADF\<close> too, but, as after any other failure of
  \<^verbatim>\<open>map_in_cache\<close>, only after \<^verbatim>\<open>unmap_in_cache\<close> has run over the batch from that world: the
  entries of the batch are validated there and those in range are cleared.
\<close>

theorem bad_fd_rolls_back:
  assumes "fd < 0"
  shows "map_in_cache P h sz msg fd w = (- EBADF, error_report Map_bad_fd w) \<and>
         vhost_user_fs_backend_map P fs msg fd w =
           (- EBADF,
            snd (unmap_in_cache P (memory_region_get_ram_ptr (cache fs)) (conf_cache_size (conf fs))
                   msg (error_report Map_bad_fd w)))"
  using assms by (simp add: backend_map_unfold Let_def map_in_cache_def EBADF_def)

text \<open>
  The claim that the window is left unchanged fails: a batch sent with descriptor \<open>-1\<close> for
  the page that \<open>mapped_world\<close> has mapped from the file leaves that page anonymous and
  without access, by one call of \<^verbatim>\<open>mmap\<close>.
\<close>

theorem bad_fd_counterexample:
  "fst (vhost_user_fs_backend_map (a_host False) (a_device 4096) (batch [(0, 0, 4096, 1)]) (- 1)
          mapped_world) = - EBADF \<and>
   aspace mapped_world 0x7F0000000000 =
     Some \<lparr>b_prot = PROT_READ, b_private = False, b_source = File_at 3 0\<rparr> \<and>
   aspace (snd (vhost_user_fs_backend_map (a_host False) (a_device 4096) (batch [(0, 0, 4096, 1)]) (- 1)
                  mapped_world)) 0x7F0000000000 =
     Some \<lparr>b_prot = PROT_NONE, b_private = True, b_source = Anonymous\<rparr> \<and>
   events (snd (vhost_user_fs_backend_map (a_host False) (a_device 4096) (batch [(0, 0, 4096, 1)]) (- 1)
                  mapped_world)) =
     events mapped_world @
     [Error_report Map_bad_fd,
      Mmap (clear_call (a_host False) 0x7F0000000000 0 4096) (Mapped 0x7F0000000000)]"
  by code_simp

theorem bad_fd_rolls_back_witness:
  "(- 1 :: int) < 0 \<and>
   map_in_cache (a_host False) 0x7F0000000000 4096 (batch [(0, 0, 4096, 1)]) (- 1) mapped_world =
     (- EBADF, error_report Map_bad_fd mapped_world) \<and>
   vhost_user_fs_backend_map (a_host False) (a_device 4096) (batch [(0, 0, 4096, 1)]) (- 1) mapped_world =
     (- EBADF,
      snd (unmap_in_cache (a_host False) 0x7F0000000000 4096 (batch [(0, 0, 4096, 1)])
             (error_report Map_bad_fd mapped_world)))"
proof -
  have fd: "(- 1 :: int) < 0" by simp
  have d: "memory_region_get_ram_ptr (cache (a_device 4096)) = 0x7F0000000000"
    "conf_cache_size (conf (a_device 4096)) = 4096"
    by code_simp+
  from bad_fd_rolls_back [OF fd, of "a_host False" "0x7F0000000000" 4096 "batch [(0, 0, 4096, 1)]"
      mapped_world "a_device 4096"]
  show ?thesis using fd by (simp add: d)
qed

section \<open>Realizing the device\<close>

lemma power_of_2_bits: "is_power_of_2 v \<Longrightarrow> v AND (v - 1) = 0"
proof -
  assume "is_power_of_2 v"
  then obtain k where v: "v = 2 ^ k" by (auto simp add: is_power_of_2_def)
  have "(2 ^ k :: u64) AND mask k = 0"
    by (rule bit_eqI) (auto simp add: bit_simps)
  then show ?thesis by (simp add: v mask_eq_exp_minus_1)
qed

lemma realize_unfold:
  assumes "properties_ok P (conf fs)"
  shows "vuf_device_realize P fs w =
     (let sz = conf_cache_size (conf fs) in
      if sz \<noteq> 0 \<and> (\<not> is_power_of_2 sz \<or> sz < qemu_real_host_page_size P) then
        (Some Cache_size_invalid, fs, w)
      else if sz \<noteq> 0 then
        (case kernel P (events w) (create_call P sz) of
           MAP_FAILED e \<Rightarrow> (Some Unable_to_mmap_blank_cache, fs, snd (mmap P (create_call P sz) w))
         | Mapped p \<Rightarrow>
             realize_transport P
               (fs\<lparr>cache := memory_region_init_ram_device_ptr ''virtio-fs-cache'' sz p\<rparr>)
               (snd (mmap P (create_call P sz) w)))
      else realize_transport P fs w)"
  using assms
  by (auto simp add: vuf_device_realize_def properties_ok_def Let_def create_call_def [symmetric]
        mmap_fst [symmetric] split: option.splits prod.splits mmap_result.splits)

lemma realize_transport_snd: "snd (realize_transport P fs w) = (fs, w)"
  by (simp add: realize_transport_def)

lemma realize_transport_fst: "fst (realize_transport P fs w) \<noteq> Some Cache_size_invalid"
  by (simp add: realize_transport_def)

lemma realize_earlier_error:
  "\<not> properties_ok P (conf fs) \<Longrightarrow> fst (vuf_device_realize P fs w) \<noteq> Some Cache_size_invalid"
  by (auto simp add: vuf_device_realize_def properties_ok_def split: option.splits)

text \<open>
  C9. \<^verbatim>\<open>vuf_device_realize\<close> fails with the error "cache-size property must be a power of 2
  no smaller than the page size" exactly when the properties checked before the cache size
  are valid and the cache size is not zero and is not a power of two or is smaller than the
  host's page size. It then returns at once: the device and the world are as they were.
  With those properties valid, a size that passes and is not zero makes it call \<^verbatim>\<open>mmap\<close>
  for the cache once (the events it adds are that one call, \<open>create_call\<close>), and with a
  size of zero it changes neither the device nor the world.
\<close>

theorem cache_size_validation:
  "(fst (vuf_device_realize P fs w) = Some Cache_size_invalid \<longleftrightarrow>
      properties_ok P (conf fs) \<and> conf_cache_size (conf fs) \<noteq> 0 \<and>
      (\<not> is_power_of_2 (conf_cache_size (conf fs)) \<or>
       conf_cache_size (conf fs) < qemu_real_host_page_size P)) \<and>
   (fst (vuf_device_realize P fs w) = Some Cache_size_invalid \<longrightarrow>
      vuf_device_realize P fs w = (Some Cache_size_invalid, fs, w)) \<and>
   (properties_ok P (conf fs) \<and> conf_cache_size (conf fs) \<noteq> 0 \<and>
    is_power_of_2 (conf_cache_size (conf fs)) \<and>
    qemu_real_host_page_size P \<le> conf_cache_size (conf fs) \<longrightarrow>
      events (snd (snd (vuf_device_realize P fs w))) =
        events w @
        [Mmap (create_call P (conf_cache_size (conf fs)))
           (kernel P (events w) (create_call P (conf_cache_size (conf fs))))]) \<and>
   (properties_ok P (conf fs) \<and> conf_cache_size (conf fs) = 0 \<longrightarrow>
      snd (vuf_device_realize P fs w) = (fs, w))"
proof (cases "properties_ok P (conf fs)")
  case True
  then show ?thesis
    by (auto simp add: realize_unfold [OF True] Let_def realize_transport_snd realize_transport_fst
          mmap_events split: mmap_result.splits)
next
  case False
  with realize_earlier_error [OF False, of w] show ?thesis by simp
qed

theorem cache_size_validation_witness:
  "properties_ok (a_host False) (conf (unrealized_device 3000)) \<and>
   conf_cache_size (conf (unrealized_device 3000)) \<noteq> 0 \<and>
   \<not> is_power_of_2 (conf_cache_size (conf (unrealized_device 3000))) \<and>
   vuf_device_realize (a_host False) (unrealized_device 3000) world0 =
     (Some Cache_size_invalid, unrealized_device 3000, world0) \<and>
   properties_ok (a_host False) (conf (unrealized_device 4096)) \<and>
   is_power_of_2 (conf_cache_size (conf (unrealized_device 4096))) \<and>
   qemu_real_host_page_size (a_host False) \<le> conf_cache_size (conf (unrealized_device 4096)) \<and>
   events (snd (snd (vuf_device_realize (a_host False) (unrealized_device 4096) world0))) =
     events world0 @ [Mmap (create_call (a_host False) 4096) (Mapped 0x7F0000000000)]"
proof -
  have p1: "properties_ok (a_host False) (conf (unrealized_device 3000))"
    by code_simp
  have n1: "conf_cache_size (conf (unrealized_device 3000)) \<noteq> 0"
    "\<not> is_power_of_2 (conf_cache_size (conf (unrealized_device 3000)))"
    using power_of_2_bits [of 3000] by (auto simp add: unrealized_device_def)
  have p2: "properties_ok (a_host False) (conf (unrealized_device 4096))"
    by code_simp
  have n2: "conf_cache_size (conf (unrealized_device 4096)) \<noteq> 0"
    "is_power_of_2 (conf_cache_size (conf (unrealized_device 4096)))"
    "qemu_real_host_page_size (a_host False) \<le> conf_cache_size (conf (unrealized_device 4096))"
    by code_simp+
  have k: "kernel (a_host False) (events world0) (create_call (a_host False) 4096) =
           Mapped 0x7F0000000000"
    "conf_cache_size (conf (unrealized_device 4096)) = 4096"
    by code_simp+
  from cache_size_validation [of "a_host False" "unrealized_device 3000" world0]
    cache_size_validation [of "a_host False" "unrealized_device 4096" world0]
  show ?thesis using p1 n1 p2 n2 by (simp add: k)
qed

text \<open>
  C10, as the code has it. For a cache size that is a power of two no smaller than the
  page size, and a kernel that grants the mapping at \<open>p\<close>, \<^verbatim>\<open>vuf_device_realize\<close> makes
  one call of \<^verbatim>\<open>mmap\<close>, of exactly the cache size; after it every byte at an offset below
  the size from \<open>p\<close> is private anonymous memory with the protection \<^verbatim>\<open>DAX_WINDOW_PROT\<close>,
  every other byte is backed as before, and the device's cache is the region of that
  size at \<open>p\<close>. \<^verbatim>\<open>DAX_WINDOW_PROT\<close> is \<^verbatim>\<open>PROT_NONE\<close> except on a PPC64 target on Linux,
  where it is \<^verbatim>\<open>PROT_READ\<close>.
\<close>

theorem create_window:
  assumes "properties_ok P (conf fs)"
    and "is_power_of_2 (conf_cache_size (conf fs))"
    and "qemu_real_host_page_size P \<le> conf_cache_size (conf fs)"
    and "kernel P (events w) (create_call P (conf_cache_size (conf fs))) = Mapped p"
  shows "events (snd (snd (vuf_device_realize P fs w))) =
           events w @ [Mmap (create_call P (conf_cache_size (conf fs))) (Mapped p)] \<and>
         m_length (create_call P (conf_cache_size (conf fs))) = conf_cache_size (conf fs) \<and>
         (\<forall>off. off < conf_cache_size (conf fs) \<longrightarrow>
            aspace (snd (snd (vuf_device_realize P fs w))) (p + off) =
              Some \<lparr>b_prot = DAX_WINDOW_PROT P, b_private = True, b_source = Anonymous\<rparr>) \<and>
         (\<forall>a. \<not> a - p < conf_cache_size (conf fs) \<longrightarrow>
            aspace (snd (snd (vuf_device_realize P fs w))) a = aspace w a) \<and>
         cache (fst (snd (vuf_device_realize P fs w))) =
           \<lparr>mr_name = ''virtio-fs-cache'', mr_size = conf_cache_size (conf fs), mr_ram_ptr = p\<rparr> \<and>
         (DAX_WINDOW_PROT P = PROT_NONE \<longleftrightarrow> \<not> target_ppc64_linux P) \<and>
         (DAX_WINDOW_PROT P = PROT_READ \<longleftrightarrow> target_ppc64_linux P)"
proof -
  let ?sz = "conf_cache_size (conf fs)"
  let ?c = "create_call P ?sz"
  have nz: "?sz \<noteq> 0"
    using assms(2) by (auto simp add: is_power_of_2_def)
  have r: "vuf_device_realize P fs w =
     realize_transport P (fs\<lparr>cache := memory_region_init_ram_device_ptr ''virtio-fs-cache'' ?sz p\<rparr>)
       (snd (mmap P ?c w))"
    using assms nz by (simp add: realize_unfold [OF assms(1)] Let_def not_less [symmetric])
  have a: "aspace (snd (snd (vuf_device_realize P fs w))) = mmap_effect ?c p (aspace w)"
    using assms(4) by (simp add: r realize_transport_snd mmap_def Let_def)
  have fl: "m_flags ?c AND MAP_PRIVATE \<noteq> 0" "m_flags ?c AND MAP_ANONYMOUS \<noteq> 0"
    by (simp_all add: create_call_def MAP_ANONYMOUS_def MAP_PRIVATE_def)
  have l: "m_length ?c = ?sz" "m_prot ?c = DAX_WINDOW_PROT P"
    by (simp_all add: create_call_def)
  have 1: "events (snd (snd (vuf_device_realize P fs w))) = events w @ [Mmap ?c (Mapped p)]"
    using assms(4) by (simp add: r realize_transport_snd mmap_events)
  have 2: "\<forall>off. off < ?sz \<longrightarrow>
            aspace (snd (snd (vuf_device_realize P fs w))) (p + off) =
              Some \<lparr>b_prot = DAX_WINDOW_PROT P, b_private = True, b_source = Anonymous\<rparr>"
    by (simp add: a mmap_effect_def fl l)
  have 3: "\<forall>a. \<not> a - p < ?sz \<longrightarrow> aspace (snd (snd (vuf_device_realize P fs w))) a = aspace w a"
    by (simp add: a mmap_effect_def l)
  have 4: "cache (fst (snd (vuf_device_realize P fs w))) =
           \<lparr>mr_name = ''virtio-fs-cache'', mr_size = ?sz, mr_ram_ptr = p\<rparr>"
    by (simp add: r realize_transport_snd memory_region_init_ram_device_ptr_def)
  have 5: "(DAX_WINDOW_PROT P = PROT_NONE \<longleftrightarrow> \<not> target_ppc64_linux P) \<and>
         (DAX_WINDOW_PROT P = PROT_READ \<longleftrightarrow> target_ppc64_linux P)"
    by (simp add: DAX_WINDOW_PROT_def PROT_NONE_def PROT_READ_def)
  from 1 l(1) 2 3 4 5 show ?thesis by blast
qed

text \<open>
  The claim that the window is without access after its creation fails on a PPC64 target
  on Linux: there the bytes of the new window are readable.
\<close>

theorem create_window_counterexample:
  "properties_ok (a_host True) (conf (unrealized_device 4096)) \<and>
   is_power_of_2 4096 \<and>
   qemu_real_host_page_size (a_host True) \<le> 4096 \<and>
   fst (vuf_device_realize (a_host True) (unrealized_device 4096) world0) = None \<and>
   aspace (snd (snd (vuf_device_realize (a_host True) (unrealized_device 4096) world0)))
     0x7F0000000000 =
     Some \<lparr>b_prot = PROT_READ, b_private = True, b_source = Anonymous\<rparr> \<and>
   PROT_READ \<noteq> PROT_NONE"
  by code_simp

theorem create_window_witness:
  "properties_ok (a_host True) (conf (unrealized_device 8192)) \<and>
   is_power_of_2 (conf_cache_size (conf (unrealized_device 8192))) \<and>
   qemu_real_host_page_size (a_host True) \<le> conf_cache_size (conf (unrealized_device 8192)) \<and>
   kernel (a_host True) (events world0)
     (create_call (a_host True) (conf_cache_size (conf (unrealized_device 8192)))) =
     Mapped 0x7F0000000000 \<and>
   aspace (snd (snd (vuf_device_realize (a_host True) (unrealized_device 8192) world0)))
     (0x7F0000000000 + 8191) =
     Some \<lparr>b_prot = DAX_WINDOW_PROT (a_host True), b_private = True, b_source = Anonymous\<rparr> \<and>
   aspace (snd (snd (vuf_device_realize (a_host True) (unrealized_device 8192) world0)))
     (0x7F0000000000 + 8192) = aspace world0 (0x7F0000000000 + 8192) \<and>
   DAX_WINDOW_PROT (a_host True) = PROT_READ"
proof -
  have p: "properties_ok (a_host True) (conf (unrealized_device 8192))"
    by code_simp
  have n: "is_power_of_2 (conf_cache_size (conf (unrealized_device 8192)))"
    "qemu_real_host_page_size (a_host True) \<le> conf_cache_size (conf (unrealized_device 8192))"
    by code_simp+
  have k: "kernel (a_host True) (events world0)
     (create_call (a_host True) (conf_cache_size (conf (unrealized_device 8192)))) =
     Mapped 0x7F0000000000"
    by code_simp
  have sz: "conf_cache_size (conf (unrealized_device 8192)) = 8192"
    by code_simp
  have t: "target_ppc64_linux (a_host True)"
    by code_simp
  note th = create_window [OF p n k, unfolded sz]
  have in_window: "(8191::u64) < 8192" by simp
  have past_window: "\<not> (0x7F0000000000 + 8192 :: u64) - 0x7F0000000000 < 8192" by simp
  from th [THEN conjunct2, THEN conjunct2, THEN conjunct1, rule_format, OF in_window]
  have 1: "aspace (snd (snd (vuf_device_realize (a_host True) (unrealized_device 8192) world0)))
     (0x7F0000000000 + 8191) =
     Some \<lparr>b_prot = DAX_WINDOW_PROT (a_host True), b_private = True, b_source = Anonymous\<rparr>" .
  from th [THEN conjunct2, THEN conjunct2, THEN conjunct2, THEN conjunct1, rule_format, OF past_window]
  have 2: "aspace (snd (snd (vuf_device_realize (a_host True) (unrealized_device 8192) world0)))
     (0x7F0000000000 + 8192) = aspace world0 (0x7F0000000000 + 8192)" .
  from th [THEN conjunct2, THEN conjunct2, THEN conjunct2, THEN conjunct2, THEN conjunct2,
      THEN conjunct2] t
  have 3: "DAX_WINDOW_PROT (a_host True) = PROT_READ"
    by simp
  from p n k 1 2 3 show ?thesis by blast
qed

section \<open>The length that stands for the whole cache\<close>

lemma mmap_clear_granted:
  assumes "kernel P (events w) (clear_call P h 0 l) = Mapped h"
  shows "snd (mmap P (clear_call P h 0 l) w) = cleared P h l w"
  using assms
  by (simp add: mmap_def Let_def mmap_effect_def cleared_def clear_call_def
        MAP_PRIVATE_def MAP_ANONYMOUS_def MAP_FIXED_def cong: if_cong)

lemma sentinel_range:
  "range_invalid off sz sz \<longleftrightarrow> off \<noteq> 0"
  using unsigned_less [of sz, where ?'a = nat]
  by (auto simp add: range_invalid_def unat_gt_0 unat_eq_zero)

lemma unmap_loop_call_event:
  assumes "i < VHOST_USER_FS_BACKEND_ENTRIES" and "len msg ! i \<noteq> 0"
    and "\<not> range_invalid (cache_offset msg ! i) (resolved_len sz (len msg ! i)) sz"
    and "c = clear_call P h (cache_offset msg ! i) (resolved_len sz (len msg ! i))"
  shows "\<exists>es. events (snd (unmap_loop P h sz msg i res w)) =
               events w @ Mmap c (kernel P (events w) c) # es"
proof -
  let ?w = "snd (mmap P c w)"
  obtain es where "events (snd (unmap_loop P h sz msg (Suc i) res ?w)) = events ?w @ es"
    using unmap_loop_events by blast
  moreover obtain es' where
    "events (snd (unmap_loop P h sz msg (Suc i) (- errno ?w)
               (error_report (Unmap_failed i (errno ?w)) ?w))) =
     events (error_report (Unmap_failed i (errno ?w)) ?w) @ es'"
    using unmap_loop_events by blast
  ultimately show ?thesis
    by (auto simp add: unmap_loop_clear [OF assms] error_report_events mmap_events)
qed

text \<open>
  C4, as the code has it. When the loop of \<^verbatim>\<open>unmap_in_cache\<close> reaches an entry whose length
  is all ones, the length is first resolved to the cache size. The entry then passes
  validation only with the cache offset 0: with any other offset it is rejected with
  \<open>- EINVAL\<close> and nothing is cleared. With offset 0 the call of \<^verbatim>\<open>mmap\<close> is made for the
  whole cache, and when the kernel grants it the loop goes on from the world in which
  exactly the bytes of the cache are cleared.
\<close>

theorem whole_window_unmap:
  assumes "i < VHOST_USER_FS_BACKEND_ENTRIES" and "len msg ! i = NOT 0"
  shows "resolved_len sz (len msg ! i) = sz \<and>
         (cache_offset msg ! i \<noteq> 0 \<longrightarrow>
            unmap_loop P h sz msg i res w =
              unmap_loop P h sz msg (Suc i) (- EINVAL)
                (error_report (Unmap_bad_range i (cache_offset msg ! i) sz) w)) \<and>
         (cache_offset msg ! i = 0 \<longrightarrow>
            (\<exists>es. events (snd (unmap_loop P h sz msg i res w)) =
                    events w @
                    Mmap (clear_call P h 0 sz) (kernel P (events w) (clear_call P h 0 sz)) # es)) \<and>
         (cache_offset msg ! i = 0 \<and> kernel P (events w) (clear_call P h 0 sz) = Mapped h \<longrightarrow>
            unmap_loop P h sz msg i res w = unmap_loop P h sz msg (Suc i) res (cleared P h sz w))"
proof -
  let ?off = "cache_offset msg ! i"
  have nz: "len msg ! i \<noteq> 0"
    using assms(2) by simp
  have l: "resolved_len sz (len msg ! i) = sz"
    using assms(2) by (simp add: resolved_len_def)
  have rej: "unmap_loop P h sz msg i res w =
      unmap_loop P h sz msg (Suc i) (- EINVAL) (error_report (Unmap_bad_range i ?off sz) w)"
    if "?off \<noteq> 0"
    using unmap_loop_reject [OF assms(1) nz, of sz P h res w] that
    by (simp add: l sentinel_range)
  have ok: "\<not> range_invalid ?off (resolved_len sz (len msg ! i)) sz" if "?off = 0"
    using that by (simp add: l sentinel_range)
  have c: "clear_call P h 0 sz = clear_call P h ?off (resolved_len sz (len msg ! i))" if "?off = 0"
    using that by (simp add: l)
  have call: "\<exists>es. events (snd (unmap_loop P h sz msg i res w)) =
      events w @ Mmap (clear_call P h 0 sz) (kernel P (events w) (clear_call P h 0 sz)) # es"
    if "?off = 0"
    using unmap_loop_call_event [OF assms(1) nz ok [OF that] c [OF that]] .
  have granted: "unmap_loop P h sz msg i res w = unmap_loop P h sz msg (Suc i) res (cleared P h sz w)"
    if "?off = 0" and "kernel P (events w) (clear_call P h 0 sz) = Mapped h"
    using unmap_loop_clear [OF assms(1) nz ok [OF that(1)] c [OF that(1)], of res w] that
    by (simp add: mmap_clear_granted)
  from l rej call granted show ?thesis by blast
qed

text \<open>
  The claim that the entry clears the range from its offset to the end of the cache for
  every offset inside the cache fails: in a cache of two pages, both mapped from the file,
  the all-ones length at offset 4096 is rejected and the second page stays mapped.
\<close>

theorem whole_window_unmap_counterexample:
  "fst (vhost_user_fs_backend_unmap (a_host False) (a_device 8192) (batch [(0, 4096, - 1, 0)])
          two_pages_world) = - EINVAL \<and>
   events (snd (vhost_user_fs_backend_unmap (a_host False) (a_device 8192) (batch [(0, 4096, - 1, 0)])
                  two_pages_world)) =
     events two_pages_world @ [Error_report (Unmap_bad_range 0 4096 8192)] \<and>
   aspace (snd (vhost_user_fs_backend_unmap (a_host False) (a_device 8192) (batch [(0, 4096, - 1, 0)])
                  two_pages_world)) (0x7F0000000000 + 4096) =
     Some \<lparr>b_prot = PROT_READ, b_private = False, b_source = File_at 3 4096\<rparr>"
  by code_simp

theorem whole_window_unmap_witness:
  "(0::nat) < VHOST_USER_FS_BACKEND_ENTRIES \<and>
   len (batch [(0, 0, - 1, 0)]) ! 0 = NOT 0 \<and>
   cache_offset (batch [(0, 0, - 1, 0)]) ! 0 = 0 \<and>
   kernel (a_host False) (events two_pages_world) (clear_call (a_host False) 0x7F0000000000 0 8192) =
     Mapped 0x7F0000000000 \<and>
   unmap_loop (a_host False) 0x7F0000000000 8192 (batch [(0, 0, - 1, 0)]) 0 0 two_pages_world =
     unmap_loop (a_host False) 0x7F0000000000 8192 (batch [(0, 0, - 1, 0)]) (Suc 0) 0
       (cleared (a_host False) 0x7F0000000000 8192 two_pages_world) \<and>
   aspace (cleared (a_host False) 0x7F0000000000 8192 two_pages_world) (0x7F0000000000 + 4096) =
     Some \<lparr>b_prot = PROT_NONE, b_private = True, b_source = Anonymous\<rparr> \<and>
   len (batch [(0, 4096, - 1, 0)]) ! 0 = NOT 0 \<and>
   cache_offset (batch [(0, 4096, - 1, 0)]) ! 0 \<noteq> 0 \<and>
   unmap_loop (a_host False) 0x7F0000000000 8192 (batch [(0, 4096, - 1, 0)]) 0 0 two_pages_world =
     unmap_loop (a_host False) 0x7F0000000000 8192 (batch [(0, 4096, - 1, 0)]) (Suc 0) (- EINVAL)
       (error_report (Unmap_bad_range 0 4096 8192) two_pages_world)"
proof -
  have h1: "(0::nat) < VHOST_USER_FS_BACKEND_ENTRIES"
    by (simp add: VHOST_USER_FS_BACKEND_ENTRIES_def)
  have h2: "len (batch [(0, 0, - 1, 0)]) ! 0 = NOT 0"
    by (simp add: batch_def)
  have off: "cache_offset (batch [(0, 0, - 1, 0)]) ! 0 = 0"
    by (simp add: batch_def)
  have k: "kernel (a_host False) (events two_pages_world)
             (clear_call (a_host False) 0x7F0000000000 0 8192) = Mapped 0x7F0000000000"
    by code_simp
  have a: "aspace (cleared (a_host False) 0x7F0000000000 8192 two_pages_world)
             (0x7F0000000000 + 4096) =
           Some \<lparr>b_prot = PROT_NONE, b_private = True, b_source = Anonymous\<rparr>"
    by code_simp
  have h2': "len (batch [(0, 4096, - 1, 0)]) ! 0 = NOT 0"
    by (simp add: batch_def)
  have off': "cache_offset (batch [(0, 4096, - 1, 0)]) ! 0 = 4096"
    by (simp add: batch_def)
  note t1 = whole_window_unmap [OF h1 h2, of 8192 "a_host False" "0x7F0000000000" 0 two_pages_world]
  note t2 = whole_window_unmap [OF h1 h2', of 8192 "a_host False" "0x7F0000000000" 0 two_pages_world]
  from t1 off k have b: "unmap_loop (a_host False) 0x7F0000000000 8192 (batch [(0, 0, - 1, 0)]) 0 0 two_pages_world =
     unmap_loop (a_host False) 0x7F0000000000 8192 (batch [(0, 0, - 1, 0)]) (Suc 0) 0
       (cleared (a_host False) 0x7F0000000000 8192 two_pages_world)"
    by simp
  from t2 have c: "unmap_loop (a_host False) 0x7F0000000000 8192 (batch [(0, 4096, - 1, 0)]) 0 0 two_pages_world =
     unmap_loop (a_host False) 0x7F0000000000 8192 (batch [(0, 4096, - 1, 0)]) (Suc 0) (- EINVAL)
       (error_report (Unmap_bad_range 0 4096 8192) two_pages_world)"
    by (simp add: off')
  have nz: "cache_offset (batch [(0, 4096, - 1, 0)]) ! 0 \<noteq> 0"
    by (simp add: off')
  from h1 h2 off k b a h2' nz c show ?thesis by blast
qed

section \<open>The guard of get_cache\<close>

text \<open>
  The guard of \<^verbatim>\<open>get_cache\<close> is \<^verbatim>\<open>if (!cache_size)\<close>, a test of the pointer, which in both
  callbacks is the address of a local variable; its message, \<^verbatim>\<open>map/unmap called when DAX
  cache not present\<close>, and its result \<open>- ENOENT\<close> are those of a test of the size stored
  through the pointer. With no cache configured the callbacks therefore go on, into
  \<^verbatim>\<open>memory_region_get_ram_ptr\<close> for a region that \<^verbatim>\<open>vuf_device_realize\<close> has not created
  and into the loops with a window of size zero. The statements below hold for every
  region in place of that one, so for whatever pointer is read from it.
\<close>

lemma empty_cache_range: "l \<noteq> 0 \<Longrightarrow> range_invalid off l 0"
  by (simp add: range_invalid_def unat_gt_0)

lemma no_cache_device: "conf_cache_size (conf (a_device 0)) = 0"
  by code_simp

lemma one_page_slots:
  "len (batch [(0, 0, 4096, g)]) ! 0 = 4096"
  "cache_offset (batch [(0, 0, 4096, g)]) ! 0 = 0"
  "len (batch [(0, 0, 4096, g)]) ! Suc 0 = 0"
  by (simp_all add: batch_def)

lemma whole_window_slots:
  "len (batch [(0, 0, - 1, 0)]) ! 0 = NOT 0"
  "cache_offset (batch [(0, 0, - 1, 0)]) ! 0 = 0"
  "len (batch [(0, 0, - 1, 0)]) ! Suc 0 = 0"
  by (simp_all add: batch_def)

lemma no_cache_unmap_one_page:
  "unmap_in_cache P h 0 (batch [(0, 0, 4096, g)]) w =
     (- EINVAL, error_report (Unmap_bad_range 0 0 4096) w)"
proof -
  have lt: "0 < VHOST_USER_FS_BACKEND_ENTRIES"
    by (simp add: VHOST_USER_FS_BACKEND_ENTRIES_def)
  have nz: "len (batch [(0, 0, 4096, g)]) ! 0 \<noteq> 0"
    by (simp add: one_page_slots)
  have bad: "range_invalid (cache_offset (batch [(0, 0, 4096, g)]) ! 0)
               (resolved_len 0 (len (batch [(0, 0, 4096, g)]) ! 0)) 0"
    by (simp add: one_page_slots resolved_len_def empty_cache_range)
  show ?thesis
    unfolding unmap_in_cache_def unmap_loop_reject [OF lt nz bad]
    by (simp add: unmap_loop_end one_page_slots resolved_len_def)
qed

lemma no_cache_unmap_whole_window:
  "unmap_in_cache (a_host ppc) h 0 (batch [(0, 0, - 1, 0)]) w =
     (- EINVAL,
      error_report (Unmap_failed 0 EINVAL)
        (snd (mmap (a_host ppc) (clear_call (a_host ppc) h 0 0) w)))"
proof -
  let ?msg = "batch [(0, 0, - 1, 0)]"
  let ?c = "clear_call (a_host ppc) h 0 0"
  have lt: "0 < VHOST_USER_FS_BACKEND_ENTRIES"
    by (simp add: VHOST_USER_FS_BACKEND_ENTRIES_def)
  have nz: "len ?msg ! 0 \<noteq> 0"
    by (simp add: whole_window_slots)
  have l: "resolved_len 0 (len ?msg ! 0) = 0"
    by (simp add: whole_window_slots resolved_len_def)
  have ok: "\<not> range_invalid (cache_offset ?msg ! 0) (resolved_len 0 (len ?msg ! 0)) 0"
    by (simp add: whole_window_slots resolved_len_def range_invalid_def)
  have c: "?c = clear_call (a_host ppc) h (cache_offset ?msg ! 0) (resolved_len 0 (len ?msg ! 0))"
    by (simp add: whole_window_slots resolved_len_def)
  have k: "kernel (a_host ppc) hs ?c = MAP_FAILED EINVAL" for hs
    by (simp add: a_host_def a_kernel_def clear_call_def)
  have e: "errno (snd (mmap (a_host ppc) ?c w)) = EINVAL"
    by (simp add: mmap_def Let_def k)
  show ?thesis
    unfolding unmap_in_cache_def unmap_loop_clear [OF lt nz ok c]
    by (simp add: k e unmap_loop_end whole_window_slots)
qed

text \<open>
  C5. Take the device realized with the cache size 0, whatever is in its cache region,
  on a host whose kernel refuses a mapping of length 0 with \<^verbatim>\<open>EINVAL\<close>. \<^verbatim>\<open>get_cache\<close>,
  called as the callbacks call it, stores the size 0, reports nothing and returns 0.
  A map batch of one page with the descriptor 3 is then taken into both loops: it is
  answered with \<open>- EINVAL\<close> and two reports of a bad range, one of the mapping loop and one
  of the rollback; an unmap batch of one page likewise with \<open>- EINVAL\<close> and one such
  report. An unmap batch with the all-ones length at offset 0 has that length resolved to
  the size 0, passes the validation, and \<^verbatim>\<open>mmap\<close> is called with length 0 at the pointer
  read from the region; the answer is the error of that call. In none of the three is
  the missing cache reported, and none returns the \<open>- ENOENT\<close> of the guard.
\<close>

theorem cache_guard_tests_pointer:
  "conf_cache_size (conf ((a_device 0)\<lparr>cache := mr\<rparr>)) = 0 \<and>
   get_cache ((a_device 0)\<lparr>cache := mr\<rparr>) Addr_of_local Addr_of_local w =
     (0, memory_region_get_ram_ptr mr, 0, w) \<and>
   vhost_user_fs_backend_map (a_host False) ((a_device 0)\<lparr>cache := mr\<rparr>)
       (batch [(0, 0, 4096, 1)]) 3 w =
     (- EINVAL,
      error_report (Unmap_bad_range 0 0 4096) (error_report (Map_bad_range 0 0 4096) w)) \<and>
   vhost_user_fs_backend_unmap (a_host False) ((a_device 0)\<lparr>cache := mr\<rparr>)
       (batch [(0, 0, 4096, 0)]) w =
     (- EINVAL, error_report (Unmap_bad_range 0 0 4096) w) \<and>
   fst (vhost_user_fs_backend_unmap (a_host False) ((a_device 0)\<lparr>cache := mr\<rparr>)
          (batch [(0, 0, - 1, 0)]) w) = - EINVAL \<and>
   events (snd (vhost_user_fs_backend_unmap (a_host False) ((a_device 0)\<lparr>cache := mr\<rparr>)
                  (batch [(0, 0, - 1, 0)]) w)) =
     events w @
     [Mmap (clear_call (a_host False) (memory_region_get_ram_ptr mr) 0 0) (MAP_FAILED EINVAL),
      Error_report (Unmap_failed 0 EINVAL)]"
proof -
  let ?fs = "(a_device 0)\<lparr>cache := mr\<rparr>"
  let ?h = "memory_region_get_ram_ptr mr"
  have sz: "conf_cache_size (conf ?fs) = 0"
    by (simp add: no_cache_device)
  have g: "get_cache ?fs Addr_of_local Addr_of_local w = (0, ?h, 0, w)"
    by (simp add: get_cache_local no_cache_device)
  have lt: "0 < VHOST_USER_FS_BACKEND_ENTRIES"
    by (simp add: VHOST_USER_FS_BACKEND_ENTRIES_def)
  have m: "map_in_cache (a_host False) ?h 0 (batch [(0, 0, 4096, 1)]) 3 w =
      (- EINVAL, error_report (Map_bad_range 0 0 4096) w)"
    using map_loop_reject [OF lt, of "batch [(0, 0, 4096, 1)]" 0 "a_host False" ?h 3 w]
    by (simp add: map_in_cache_def one_page_slots empty_cache_range)
  have ne: "EINVAL \<noteq> (0::int)"
    by (simp add: EINVAL_def)
  have bm: "vhost_user_fs_backend_map (a_host False) ?fs (batch [(0, 0, 4096, 1)]) 3 w =
      (- EINVAL,
       error_report (Unmap_bad_range 0 0 4096) (error_report (Map_bad_range 0 0 4096) w))"
    by (simp add: backend_map_unfold Let_def no_cache_device m ne no_cache_unmap_one_page)
  have bu: "vhost_user_fs_backend_unmap (a_host False) ?fs (batch [(0, 0, 4096, 0)]) w =
      (- EINVAL, error_report (Unmap_bad_range 0 0 4096) w)"
    by (simp add: backend_unmap_unfold no_cache_device no_cache_unmap_one_page)
  have bw: "vhost_user_fs_backend_unmap (a_host False) ?fs (batch [(0, 0, - 1, 0)]) w =
      (- EINVAL,
       error_report (Unmap_failed 0 EINVAL)
         (snd (mmap (a_host False) (clear_call (a_host False) ?h 0 0) w)))"
    by (simp add: backend_unmap_unfold no_cache_device no_cache_unmap_whole_window)
  have k: "kernel (a_host False) (events w) (clear_call (a_host False) ?h 0 0) = MAP_FAILED EINVAL"
    by (simp add: a_host_def a_kernel_def clear_call_def)
  have ev: "events (snd (vhost_user_fs_backend_unmap (a_host False) ?fs (batch [(0, 0, - 1, 0)]) w)) =
      events w @
      [Mmap (clear_call (a_host False) ?h 0 0) (MAP_FAILED EINVAL),
       Error_report (Unmap_failed 0 EINVAL)]"
    by (simp add: bw error_report_events mmap_events k)
  have fw: "fst (vhost_user_fs_backend_unmap (a_host False) ?fs (batch [(0, 0, - 1, 0)]) w) =
      - EINVAL"
    by (simp add: bw)
  from sz g bm bu fw ev show ?thesis by blast
qed

section \<open>Zero-length slots in unmap_in_cache\<close>

text \<open>
  The loop of \<^verbatim>\<open>unmap_in_cache\<close> ends at the first slot whose length is zero
  (\<open>unmap_loop_end\<close>), where the loop of \<^verbatim>\<open>map_in_cache\<close> skips such a slot (\<open>map_loop_skip\<close>).
  So a batch whose first slot is unused is not unmapped at all, and a map batch with such a
  slot is not rolled back, whatever its other slots hold.
\<close>

lemma unmap_in_cache_first_unused:
  "len msg ! 0 = 0 \<Longrightarrow> unmap_in_cache P h sz msg w = (0, w)"
  by (simp add: unmap_in_cache_def unmap_loop_end)

lemma backend_map_not_rolled_back:
  "len msg ! 0 = 0 \<Longrightarrow>
   vhost_user_fs_backend_map P fs msg fd w =
     map_in_cache P (memory_region_get_ram_ptr (cache fs)) (conf_cache_size (conf fs)) msg fd w"
  by (simp add: backend_map_unfold Let_def unmap_in_cache_first_unused)

text \<open>
  The three theorems of this section run the code where that matters.

  C1. On a device with a cache of one page, a map batch with an unused first slot, a valid
  entry in the second and an entry one byte too long in the third fails with \<open>- EINVAL\<close>.
  The rollback ends at the first slot: it adds no event, and the page, without access
  before the batch, stays mapped from the file for the second slot.
\<close>

theorem rollback_stops_at_zero_length:
  "fst (vhost_user_fs_backend_map (a_host False) (a_device 4096)
          (batch [(0, 0, 0, 0), (0, 0, 4096, 1), (0, 0, 4097, 1)]) 3 (a_world 4096)) = - EINVAL \<and>
   events (snd (vhost_user_fs_backend_map (a_host False) (a_device 4096)
          (batch [(0, 0, 0, 0), (0, 0, 4096, 1), (0, 0, 4097, 1)]) 3 (a_world 4096))) =
     events (a_world 4096) @
     [placed 0x7F0000000000 (batch [(0, 0, 0, 0), (0, 0, 4096, 1), (0, 0, 4097, 1)]) 3 1,
      Error_report (Map_bad_range 2 0 4097)] \<and>
   aspace (a_world 4096) 0x7F0000000000 =
     Some \<lparr>b_prot = PROT_NONE, b_private = True, b_source = Anonymous\<rparr> \<and>
   aspace (snd (vhost_user_fs_backend_map (a_host False) (a_device 4096)
          (batch [(0, 0, 0, 0), (0, 0, 4096, 1), (0, 0, 4097, 1)]) 3 (a_world 4096))) 0x7F0000000000 =
     Some \<lparr>b_prot = PROT_READ, b_private = False, b_source = File_at 3 0\<rparr>"
  by code_simp

text \<open>
  C2. An unmap batch with an unused first slot and a valid entry for the mapped page in
  the second returns 0 and leaves the world as it was: the second entry is neither
  validated nor cleared.
\<close>

theorem unmap_stops_at_zero_length:
  "len (batch [(0, 0, 0, 0), (0, 0, 4096, 0)]) ! 1 = 4096 \<and>
   \<not> range_invalid 0 4096 4096 \<and>
   aspace mapped_world 0x7F0000000000 =
     Some \<lparr>b_prot = PROT_READ, b_private = False, b_source = File_at 3 0\<rparr> \<and>
   vhost_user_fs_backend_unmap (a_host False) (a_device 4096)
     (batch [(0, 0, 0, 0), (0, 0, 4096, 0)]) mapped_world = (0, mapped_world)"
proof -
  have 1: "len (batch [(0, 0, 0, 0), (0, 0, 4096, 0)]) ! 1 = 4096"
    "len (batch [(0, 0, 0, 0), (0, 0, 4096, 0)]) ! 0 = 0"
    by (simp_all add: batch_def)
  have 2: "\<not> range_invalid 0 4096 4096"
    by (simp add: range_invalid_def)
  have 3: "aspace mapped_world 0x7F0000000000 =
     Some \<lparr>b_prot = PROT_READ, b_private = False, b_source = File_at 3 0\<rparr>"
    by code_simp
  have 4: "vhost_user_fs_backend_unmap (a_host False) (a_device 4096)
     (batch [(0, 0, 0, 0), (0, 0, 4096, 0)]) mapped_world = (0, mapped_world)"
    by (simp add: backend_unmap_unfold unmap_in_cache_def unmap_loop_end 1)
  from 1(1) 2 3 4 show ?thesis by blast
qed

text \<open>
  Among the slots that its loop reaches, \<^verbatim>\<open>unmap_in_cache\<close> does return the last error: the
  result of the loop is the one of the last report among the events it added, and the
  value of \<^verbatim>\<open>res\<close> it started from when it made no report.
\<close>

lemma emitted_step:
  assumes "events w1 = events w @ es1" and "\<exists>es. events w' = events w1 @ es"
  shows "emitted w w' = es1 @ emitted w1 w'"
  using assms by (auto simp add: emitted_def)

lemma unmap_loop_last_error:
  "fst (unmap_loop P h sz msg i res w) =
     last_error (emitted w (snd (unmap_loop P h sz msg i res w))) res"
proof (induction k \<equiv> "VHOST_USER_FS_BACKEND_ENTRIES - i" arbitrary: i res w)
  case 0
  then show ?case by (simp add: unmap_loop_end emitted_def)
next
  case (Suc k)
  then have lt: "i < VHOST_USER_FS_BACKEND_ENTRIES" by simp
  have IH: "fst (unmap_loop P h sz msg (Suc i) res' w') =
     last_error (emitted w' (snd (unmap_loop P h sz msg (Suc i) res' w'))) res'" for res' w'
    using Suc by simp
  show ?case
  proof (cases "len msg ! i = 0")
    case True
    then show ?thesis by (simp add: unmap_loop_end emitted_def)
  next
    case nz: False
    let ?l = "resolved_len sz (len msg ! i)"
    show ?thesis
    proof (cases "range_invalid (cache_offset msg ! i) ?l sz")
      case True
      let ?w1 = "error_report (Unmap_bad_range i (cache_offset msg ! i) ?l) w"
      have "emitted w (snd (unmap_loop P h sz msg (Suc i) (- EINVAL) ?w1)) =
            [Error_report (Unmap_bad_range i (cache_offset msg ! i) ?l)] @
            emitted ?w1 (snd (unmap_loop P h sz msg (Suc i) (- EINVAL) ?w1))"
        by (rule emitted_step, simp add: error_report_events, rule unmap_loop_events)
      with lt nz True IH [of "- EINVAL" ?w1] show ?thesis
        by (simp add: unmap_loop_reject)
    next
      case ok: False
      let ?c = "clear_call P h (cache_offset msg ! i) ?l"
      let ?w1 = "snd (mmap P ?c w)"
      let ?w2 = "error_report (Unmap_failed i (errno ?w1)) ?w1"
      show ?thesis
      proof (cases "kernel P (events w) ?c = Mapped (h + cache_offset msg ! i)")
        case True
        have "emitted w (snd (unmap_loop P h sz msg (Suc i) res ?w1)) =
              [Mmap ?c (kernel P (events w) ?c)] @
              emitted ?w1 (snd (unmap_loop P h sz msg (Suc i) res ?w1))"
          by (rule emitted_step, simp add: mmap_events, rule unmap_loop_events)
        with True IH [of res ?w1] show ?thesis
          by (simp add: unmap_loop_clear [OF lt nz ok refl])
      next
        case False
        have "emitted w (snd (unmap_loop P h sz msg (Suc i) (- errno ?w1) ?w2)) =
              [Mmap ?c (kernel P (events w) ?c), Error_report (Unmap_failed i (errno ?w1))] @
              emitted ?w2 (snd (unmap_loop P h sz msg (Suc i) (- errno ?w1) ?w2))"
          by (rule emitted_step, simp add: mmap_events error_report_events, rule unmap_loop_events)
        with False IH [of "- errno ?w1" ?w2] show ?thesis
          by (simp add: unmap_loop_clear [OF lt nz ok refl])
      qed
    qed
  qed
qed

text \<open>
  C7. An unmap batch with an entry one byte too long in the first slot, an unused second
  slot and a valid entry for the mapped page in the third returns \<open>- EINVAL\<close> with the
  report of the first slot as its only event: the error is returned though the third
  entry has not been attempted, and its page stays mapped.
\<close>

theorem unmap_returns_before_later_entries:
  "fst (vhost_user_fs_backend_unmap (a_host False) (a_device 4096)
          (batch [(0, 0, 4097, 0), (0, 0, 0, 0), (0, 0, 4096, 0)]) mapped_world) = - EINVAL \<and>
   events (snd (vhost_user_fs_backend_unmap (a_host False) (a_device 4096)
          (batch [(0, 0, 4097, 0), (0, 0, 0, 0), (0, 0, 4096, 0)]) mapped_world)) =
     events mapped_world @ [Error_report (Unmap_bad_range 0 0 4097)] \<and>
   len (batch [(0, 0, 4097, 0), (0, 0, 0, 0), (0, 0, 4096, 0)]) ! 2 = 4096 \<and>
   aspace (snd (vhost_user_fs_backend_unmap (a_host False) (a_device 4096)
          (batch [(0, 0, 4097, 0), (0, 0, 0, 0), (0, 0, 4096, 0)]) mapped_world)) 0x7F0000000000 =
     Some \<lparr>b_prot = PROT_READ, b_private = False, b_source = File_at 3 0\<rparr>"
  by code_simp

end
